theory Spec2Isabelle
  imports Main "HOL-Library.Word"
begin

unbundle bit_operations_syntax

section \<open>The shim nomknod.c\<close>

text \<open>
  The file \<^verbatim>\<open>src/nomknod/nomknod.c\<close> defines four functions: \<^verbatim>\<open>mknod\<close>,
  \<^verbatim>\<open>mknodat\<close>, \<^verbatim>\<open>_mknod\<close> and \<^verbatim>\<open>_xmknod\<close>. The first two call the
  C library's \<^verbatim>\<open>open\<close>, \<^verbatim>\<open>openat\<close> and \<^verbatim>\<open>close\<close>; the last two call nothing.

  The embedding passes the state of the world explicitly: every function takes the state
  before the call and returns its C return value together with the state after the call.
  The library functions are not part of the file, so the four functions are first
  embedded over an arbitrary implementation of them (a record of the three functions and
  of the reader of \<^verbatim>\<open>errno\<close>, on an arbitrary state type). Section \<open>The platform\<close> then gives one implementation, a model
  of a POSIX file system, and the claims that speak about files are settled on it.
\<close>

subsection \<open>C types\<close>

text \<open>
  \<^verbatim>\<open>mode_t\<close> is an unsigned 32-bit integer and \<^verbatim>\<open>dev_t\<close> an unsigned 64-bit integer.
  A \<^verbatim>\<open>const char *\<close> is either the null pointer (\<open>None\<close>) or a string. Values of
  type \<^verbatim>\<open>int\<close> that are only returned, passed on and compared with \<open>-1\<close> (return
  values, descriptors, \<^verbatim>\<open>errno\<close>) are integers; the shim does no arithmetic on them.
  The \<^verbatim>\<open>int\<close> of open flags is a bit set, a 32-bit word.
\<close>

type_synonym mode_t = "32 word"
type_synonym dev_t = "64 word"
type_synonym cstring = "string option"
type_synonym oflag = "32 word"

definition O_CREAT :: oflag where
  "O_CREAT = 0x40"

definition O_EXCL :: oflag where
  "O_EXCL = 0x80"

subsection \<open>The library functions the shim calls\<close>

text \<open>
  \<open>c_open\<close>, \<open>c_openat\<close> and \<open>c_close\<close> stand for \<^verbatim>\<open>open\<close>, \<^verbatim>\<open>openat\<close> and
  \<^verbatim>\<open>close\<close>: each maps the state and its arguments to the return value and the new
  state. \<open>c_errno\<close> reads the calling thread's \<^verbatim>\<open>errno\<close> from a state.
\<close>

record 's libc =
  c_open :: "'s \<Rightarrow> cstring \<Rightarrow> oflag \<Rightarrow> mode_t \<Rightarrow> int \<times> 's"
  c_openat :: "'s \<Rightarrow> int \<Rightarrow> cstring \<Rightarrow> oflag \<Rightarrow> mode_t \<Rightarrow> int \<times> 's"
  c_close :: "'s \<Rightarrow> int \<Rightarrow> int \<times> 's"
  c_errno :: "'s \<Rightarrow> int"

subsection \<open>The four functions\<close>

text \<open>
  \<^verbatim>\<open>mknod\<close>, lines 16 to 28: open with \<^verbatim>\<open>O_CREAT | O_EXCL\<close> and the caller's mode;
  return \<open>-1\<close> when the open returned \<open>-1\<close>; otherwise close the descriptor, drop the
  result of the close, and return \<open>0\<close>. The argument \<open>dev\<close> is not used.
\<close>

definition mknod :: "'s libc \<Rightarrow> 's \<Rightarrow> cstring \<Rightarrow> mode_t \<Rightarrow> dev_t \<Rightarrow> int \<times> 's" where
  "mknod L s path mode dev =
     (case c_open L s path (O_CREAT OR O_EXCL) mode of
        (tmpfd, s1) \<Rightarrow>
          if tmpfd = -1 then (-1, s1)
          else (case c_close L s1 tmpfd of (_, s2) \<Rightarrow> (0, s2)))"

text \<open>\<^verbatim>\<open>mknodat\<close>, lines 30 to 42: the same with \<^verbatim>\<open>openat\<close> and the descriptor \<open>fd\<close>.\<close>

definition mknodat :: "'s libc \<Rightarrow> 's \<Rightarrow> int \<Rightarrow> cstring \<Rightarrow> mode_t \<Rightarrow> dev_t \<Rightarrow> int \<times> 's" where
  "mknodat L s fd path mode dev =
     (case c_openat L s fd path (O_CREAT OR O_EXCL) mode of
        (tmpfd, s1) \<Rightarrow>
          if tmpfd = -1 then (-1, s1)
          else (case c_close L s1 tmpfd of (_, s2) \<Rightarrow> (0, s2)))"

text \<open>
  \<^verbatim>\<open>_mknod\<close>, lines 44 to 48, and \<^verbatim>\<open>_xmknod\<close>, lines 50 to 54: both return \<open>0\<close>
  and call nothing. An Isabelle name cannot start with an underscore, so the two are
  called \<open>underscore_mknod\<close> and \<open>underscore_xmknod\<close>.
\<close>

definition underscore_mknod :: "'s \<Rightarrow> int \<times> 's" where
  "underscore_mknod s = (0, s)"

definition underscore_xmknod :: "'s \<Rightarrow> int \<Rightarrow> cstring \<Rightarrow> mode_t \<Rightarrow> dev_t \<Rightarrow> int \<times> 's" where
  "underscore_xmknod s version path mode dev = (0, s)"

subsection \<open>What the caller is told\<close>

text \<open>
  The spec gives \<^verbatim>\<open>mknod\<close> and \<^verbatim>\<open>mknodat\<close> the result type
  \<^verbatim>\<open>Result<Success, Error>\<close>. In C the return value \<open>0\<close> is the success, and any
  other return value is an error whose detail is the value of \<^verbatim>\<open>errno\<close>; after a
  successful call \<^verbatim>\<open>errno\<close> has no meaning (POSIX, \<^verbatim>\<open>errno\<close>).
\<close>

datatype result = Success | Failure int

definition result_of :: "'s libc \<Rightarrow> int \<times> 's \<Rightarrow> result" where
  "result_of L r = (if fst r = 0 then Success else Failure (c_errno L (snd r)))"

subsection \<open>A call of mknod, one library call at a time\<close>

text \<open>
  For calls that run side by side, \<^verbatim>\<open>mknod\<close> is also given as a program of steps, one
  per library call: from \<open>Ready\<close> it makes the open of line 21, which is its only
  look at the path (there is no test for existence before it), and returns \<open>-1\<close> or
  holds the descriptor; holding the descriptor it makes the close of line 25 and returns
  \<open>0\<close>.
\<close>

datatype pc = Ready | Opened int | Returned int

fun thread_step :: "'s libc \<Rightarrow> cstring \<Rightarrow> mode_t \<Rightarrow> pc \<Rightarrow> 's \<Rightarrow> pc \<times> 's" where
  "thread_step L path mode Ready s =
     (case c_open L s path (O_CREAT OR O_EXCL) mode of
        (tmpfd, s1) \<Rightarrow> if tmpfd = -1 then (Returned (-1), s1) else (Opened tmpfd, s1))"
| "thread_step L path mode (Opened tmpfd) s =
     (case c_close L s tmpfd of (_, s2) \<Rightarrow> (Returned 0, s2))"
| "thread_step L path mode (Returned r) s = (Returned r, s)"

section \<open>The platform\<close>

text \<open>
  A model of the part of the platform the shim reaches: a tree of directories and files
  with owners and permission bits, a table of open descriptors with its limit, and
  \<^verbatim>\<open>open\<close>, \<^verbatim>\<open>openat\<close> and \<^verbatim>\<open>close\<close> on them, with the errors and the order of the
  checks of Linux. None of it is code of the repository. The model has no symbolic
  links, no access control lists and one file system; what the platform refuses for lack
  of memory, of space or of a writable file system is given by the state
  (\<open>open_fault\<close>, \<open>create_fault\<close>, \<open>read_only\<close>).
\<close>

subsection \<open>Error numbers and limits\<close>

definition ENOENT :: int where
  "ENOENT = 2"

definition EINTR :: int where
  "EINTR = 4"

definition EIO :: int where
  "EIO = 5"

definition EBADF :: int where
  "EBADF = 9"

definition EACCES :: int where
  "EACCES = 13"

definition EFAULT :: int where
  "EFAULT = 14"

definition EEXIST :: int where
  "EEXIST = 17"

definition ENOTDIR :: int where
  "ENOTDIR = 20"

definition EISDIR :: int where
  "EISDIR = 21"

definition ENFILE :: int where
  "ENFILE = 23"

definition EMFILE :: int where
  "EMFILE = 24"

definition ENOSPC :: int where
  "ENOSPC = 28"

definition EROFS :: int where
  "EROFS = 30"

definition ENAMETOOLONG :: int where
  "ENAMETOOLONG = 36"

definition AT_FDCWD :: int where
  "AT_FDCWD = -100"

text \<open>
  A name has at most \<open>NAME_MAX\<close> bytes; a path with its terminating null byte has
  at most \<open>PATH_MAX\<close> bytes.
\<close>

definition NAME_MAX :: nat where
  "NAME_MAX = 255"

definition PATH_MAX :: nat where
  "PATH_MAX = 4096"

text \<open>The set-group-ID bit and the group execute bit of a mode.\<close>

definition S_ISGID :: mode_t where
  "S_ISGID = 0x400"

definition S_IXGRP :: mode_t where
  "S_IXGRP = 0x8"

subsection \<open>Files, descriptors and the state\<close>

text \<open>
  A file is named by its location, the list of names on the way from the root directory;
  the root is \<open>[]\<close>. An inode carries the file's type, its twelve permission bits, its
  owner and group, and its contents; the size of a file is the length of its contents.
\<close>

type_synonym location = "string list"

datatype ftype = S_IFREG | S_IFDIR | S_IFCHR | S_IFBLK | S_IFIFO | S_IFSOCK

record inode =
  i_type :: ftype
  i_perm :: mode_t
  i_uid :: nat
  i_gid :: nat
  i_data :: "8 word list"

text \<open>An open file description: the file it refers to and the flags it was opened with.\<close>

record ofd =
  f_loc :: location
  f_flags :: oflag

text \<open>
  The state of the calling process and of the file system:
  \<^item> \<open>fs\<close>, the files; \<open>read_only\<close>, whether the file system is mounted read-only;
  \<^item> \<open>cwd\<close>, the working directory; \<open>umask\<close>, the file mode creation mask;
  \<^item> \<open>euid\<close>, \<open>egid\<close> and \<open>groups\<close>, the user and the groups the process acts as
    (user \<open>0\<close> is the superuser);
  \<^item> \<open>fdtab\<close>, the descriptor table (descriptor \<open>n\<close> is entry \<open>n\<close> of the list,
    \<open>None\<close> when it is not open), and \<open>nofile\<close>, the limit on descriptors: \<^verbatim>\<open>open\<close>
    gives out descriptors below it only;
  \<^item> \<open>errno\<close> of the calling thread;
  \<^item> \<open>open_fault\<close>, the error with which the platform refuses to set up an open file
    (\<^verbatim>\<open>ENFILE\<close>, \<^verbatim>\<open>ENOMEM\<close>), \<open>create_fault\<close>, the error with which the file system
    refuses a new file (\<^verbatim>\<open>ENOSPC\<close>, \<^verbatim>\<open>EDQUOT\<close>), and \<open>close_fault\<close>, the error with
    which the platform lets a \<^verbatim>\<open>close\<close> of an open descriptor fail; each is \<open>None\<close>
    when the platform does not refuse.
\<close>

record os_state =
  fs :: "location \<rightharpoonup> inode"
  read_only :: bool
  cwd :: location
  umask :: mode_t
  euid :: nat
  egid :: nat
  groups :: "nat list"
  fdtab :: "ofd option list"
  nofile :: nat
  errno :: int
  open_fault :: "int option"
  create_fault :: "int option"
  close_fault :: "int option"

subsection \<open>Access\<close>

text \<open>
  The permission bits that apply to the process are the owner's when it acts as the
  owner of the file, else the group's when it is in the file's group, else the others';
  \<open>want\<close> is made of \<open>4\<close> (read), \<open>2\<close> (write) and \<open>1\<close> (search). The superuser is
  refused nothing that the model asks for (searching and writing a directory, reading a
  file).
\<close>

definition in_group :: "os_state \<Rightarrow> nat \<Rightarrow> bool" where
  "in_group s g = (g = egid s \<or> g \<in> set (groups s))"

definition permits :: "os_state \<Rightarrow> inode \<Rightarrow> mode_t \<Rightarrow> bool" where
  "permits s i want =
     (euid s = 0 \<or>
      (if i_uid i = euid s then drop_bit 6 (i_perm i) AND want = want
       else if in_group s (i_gid i) then drop_bit 3 (i_perm i) AND want = want
       else i_perm i AND want = want))"

subsection \<open>Path resolution\<close>

fun split_slash :: "string \<Rightarrow> string list" where
  "split_slash [] = [[]]"
| "split_slash (c # cs) =
     (if c = CHR ''/'' then [] # split_slash cs
      else (case split_slash cs of [] \<Rightarrow> [[c]] | w # ws \<Rightarrow> (c # w) # ws))"

definition components :: "string \<Rightarrow> string list" where
  "components p = filter (\<lambda>w. w \<noteq> []) (split_slash p)"

definition absolute :: "string \<Rightarrow> bool" where
  "absolute p = (case p of [] \<Rightarrow> False | c # _ \<Rightarrow> c = CHR ''/'')"

definition trailing_slash :: "string \<Rightarrow> bool" where
  "trailing_slash p = (p \<noteq> [] \<and> last p = CHR ''/'')"

text \<open>
  The path argument itself: the null pointer is a bad address, a path of \<open>PATH_MAX\<close>
  bytes or more is too long, the empty path names nothing.
\<close>

definition path_check :: "cstring \<Rightarrow> int + string" where
  "path_check path =
     (case path of
        None \<Rightarrow> Inl EFAULT
      | Some p \<Rightarrow>
          if PATH_MAX \<le> length p then Inl ENAMETOOLONG
          else if p = [] then Inl ENOENT
          else Inr p)"

text \<open>The error, if any, of using location \<open>d\<close> as a directory.\<close>

definition dir_check :: "os_state \<Rightarrow> location \<Rightarrow> int option" where
  "dir_check s d =
     (case fs s d of
        None \<Rightarrow> Some ENOENT
      | Some i \<Rightarrow> if i_type i = S_IFDIR then None else Some ENOTDIR)"

text \<open>The error, if any, of looking a name up in location \<open>d\<close>.\<close>

definition search_check :: "os_state \<Rightarrow> location \<Rightarrow> int option" where
  "search_check s d =
     (case fs s d of
        None \<Rightarrow> Some ENOENT
      | Some i \<Rightarrow>
          if i_type i \<noteq> S_IFDIR then Some ENOTDIR
          else if \<not> permits s i 1 then Some EACCES
          else None)"

definition step :: "location \<Rightarrow> string \<Rightarrow> location" where
  "step d n = (if n = ''.'' then d else if n = ''..'' then butlast d else d @ [n])"

text \<open>
  Walking the components before the last: each is looked up in the directory reached so
  far, which must be a directory the process may search, and must not be too long.
\<close>

fun walk :: "os_state \<Rightarrow> location \<Rightarrow> string list \<Rightarrow> int + location" where
  "walk s d [] = Inr d"
| "walk s d (n # ns) =
     (case search_check s d of
        Some e \<Rightarrow> Inl e
      | None \<Rightarrow> if NAME_MAX < length n then Inl ENAMETOOLONG else walk s (step d n) ns)"

text \<open>
  The result of resolving a path: the location of the entry it names, or, when the
  directory of its last component exists and has no entry of that name, the directory
  and the name.
\<close>

datatype target = Found location | Missing location string

text \<open>
  Resolution of a non-empty path from the directory \<open>start\<close>; \<open>creating\<close> says that
  the path is resolved for an open with \<^verbatim>\<open>O_CREAT\<close>. A path of slashes only names the
  directory it starts from. A last component \<open>.\<close> or \<open>..\<close> names a directory. For a
  last component that is a name, a trailing slash makes an open with \<^verbatim>\<open>O_CREAT\<close> fail
  with \<^verbatim>\<open>EISDIR\<close>, whatever the name names; otherwise it asks for a directory.
\<close>

definition lookup_path :: "os_state \<Rightarrow> bool \<Rightarrow> location \<Rightarrow> string \<Rightarrow> int + target" where
  "lookup_path s creating start p =
     (if components p = [] then
        (case dir_check s start of Some e \<Rightarrow> Inl e | None \<Rightarrow> Inr (Found start))
      else
        (case walk s start (butlast (components p)) of
           Inl e \<Rightarrow> Inl e
         | Inr d \<Rightarrow>
             (case search_check s d of
                Some e \<Rightarrow> Inl e
              | None \<Rightarrow>
                  if last (components p) = ''.'' \<or> last (components p) = ''..''
                  then
                    (case dir_check s (step d (last (components p))) of
                       Some e \<Rightarrow> Inl e
                     | None \<Rightarrow> Inr (Found (step d (last (components p)))))
                  else if creating \<and> trailing_slash p then Inl EISDIR
                  else if NAME_MAX < length (last (components p)) then Inl ENAMETOOLONG
                  else
                    (case fs s (d @ [last (components p)]) of
                       Some j \<Rightarrow>
                         if trailing_slash p \<and> i_type j \<noteq> S_IFDIR then Inl ENOTDIR
                         else Inr (Found (d @ [last (components p)]))
                     | None \<Rightarrow>
                         if trailing_slash p then Inl ENOENT
                         else Inr (Missing d (last (components p)))))))"

subsection \<open>The descriptor table\<close>

fun fd_alloc :: "ofd option list \<Rightarrow> nat" where
  "fd_alloc [] = 0"
| "fd_alloc (None # tab) = 0"
| "fd_alloc (Some f # tab) = Suc (fd_alloc tab)"

definition fd_install :: "ofd option list \<Rightarrow> nat \<Rightarrow> ofd \<Rightarrow> ofd option list" where
  "fd_install tab n f = (if n < length tab then tab[n := Some f] else tab @ [Some f])"

definition fd_lookup :: "os_state \<Rightarrow> int \<Rightarrow> ofd option" where
  "fd_lookup s fd =
     (if 0 \<le> fd \<and> nat fd < length (fdtab s) then fdtab s ! nat fd else None)"

text \<open>Descriptor \<open>n\<close> is free: below the limit and not open.\<close>

definition fd_free :: "os_state \<Rightarrow> nat \<Rightarrow> bool" where
  "fd_free s n = (n < nofile s \<and> fd_lookup s (int n) = None)"

subsection \<open>open, openat and close\<close>

definition fail :: "os_state \<Rightarrow> int \<Rightarrow> int \<times> os_state" where
  "fail s e = (-1, s\<lparr>errno := e\<rparr>)"

text \<open>
  The directory a path starts from: the root for an absolute path, whatever the
  descriptor is; the working directory for \<^verbatim>\<open>AT_FDCWD\<close>; else the directory the
  descriptor refers to.
\<close>

definition start_dir :: "os_state \<Rightarrow> int \<Rightarrow> string \<Rightarrow> int + location" where
  "start_dir s dfd p =
     (if absolute p then Inr []
      else if dfd = AT_FDCWD then Inr (cwd s)
      else
        (case fd_lookup s dfd of
           None \<Rightarrow> Inl EBADF
         | Some f \<Rightarrow>
             (case dir_check s (f_loc f) of
                Some e \<Rightarrow> Inl ENOTDIR
              | None \<Rightarrow> Inr (f_loc f))))"

text \<open>
  What a path names for a call that passes the descriptor \<open>dfd\<close>: the path argument
  is checked before the descriptor is looked at.
\<close>

definition resolve_at :: "os_state \<Rightarrow> bool \<Rightarrow> int \<Rightarrow> cstring \<Rightarrow> int + target" where
  "resolve_at s creating dfd path =
     (case path_check path of
        Inl e \<Rightarrow> Inl e
      | Inr p \<Rightarrow>
          (case start_dir s dfd p of
             Inl e \<Rightarrow> Inl e
           | Inr start \<Rightarrow> lookup_path s creating start p))"

text \<open>
  A file that \<^verbatim>\<open>open\<close> creates in the directory \<open>dir\<close> is a regular file without
  contents. Of the mode argument only the twelve permission bits are looked at (the file
  type bits are not); the bits of the mask are cleared. The file belongs to the user the
  process acts as, and to its group, or to the group of the directory when that has its
  set-group-ID bit. In such a directory, a process that is neither in that group nor the
  superuser does not get the set-group-ID bit it asks for together with the group execute
  bit.
\<close>

definition strip_sgid :: "os_state \<Rightarrow> inode \<Rightarrow> mode_t \<Rightarrow> mode_t" where
  "strip_sgid s dir m =
     (if m AND (S_ISGID OR S_IXGRP) = S_ISGID OR S_IXGRP \<and> i_perm dir AND S_ISGID \<noteq> 0 \<and>
         \<not> in_group s (i_gid dir) \<and> euid s \<noteq> 0
      then m AND NOT S_ISGID else m)"

definition new_file :: "os_state \<Rightarrow> inode \<Rightarrow> mode_t \<Rightarrow> inode" where
  "new_file s dir mode =
     \<lparr>i_type = S_IFREG,
      i_perm = strip_sgid s dir (mode AND 0xFFF) AND NOT (umask s AND 0x1FF),
      i_uid = euid s,
      i_gid = (if i_perm dir AND S_ISGID \<noteq> 0 then i_gid dir else egid s),
      i_data = []\<rparr>"

text \<open>Opening takes the lowest descriptor that is not open.\<close>

definition open_file :: "os_state \<Rightarrow> location \<Rightarrow> oflag \<Rightarrow> int \<times> os_state" where
  "open_file s l flags =
     (int (fd_alloc (fdtab s)),
      s\<lparr>fdtab := fd_install (fdtab s) (fd_alloc (fdtab s)) \<lparr>f_loc = l, f_flags = flags\<rparr>\<rparr>)"

text \<open>
  Creating the entry \<open>n\<close> in the directory \<open>d\<close>: refused on a read-only file system,
  then when the process may not write the directory, then when the file system has no
  room for the file.
\<close>

definition create_file :: "os_state \<Rightarrow> location \<Rightarrow> string \<Rightarrow> mode_t \<Rightarrow> int + os_state" where
  "create_file s d n mode =
     (case fs s d of
        None \<Rightarrow> Inl ENOENT
      | Some dir \<Rightarrow>
          if read_only s then Inl EROFS
          else if \<not> permits s dir 2 then Inl EACCES
          else
            (case create_fault s of
               Some e \<Rightarrow> Inl e
             | None \<Rightarrow> Inr (s\<lparr>fs := (fs s)(d @ [n] \<mapsto> new_file s dir mode)\<rparr>)))"

text \<open>
  \<^verbatim>\<open>openat\<close>, in the order of its checks: the path argument; a free descriptor below
  the limit; the set-up of the open file; the descriptor \<open>dfd\<close> and the path. With
  \<^verbatim>\<open>O_CREAT\<close> and \<^verbatim>\<open>O_EXCL\<close> it fails with \<^verbatim>\<open>EEXIST\<close> when the path names an entry;
  with \<^verbatim>\<open>O_CREAT\<close> it creates the file when the path names none. Of the flags only
  these two are interpreted: an entry that is opened is opened for reading.
  \<^verbatim>\<open>open\<close> is \<^verbatim>\<open>openat\<close> from the working directory.
\<close>

definition open_existing :: "os_state \<Rightarrow> location \<Rightarrow> oflag \<Rightarrow> int \<times> os_state" where
  "open_existing s l flags =
     (case fs s l of
        None \<Rightarrow> fail s ENOENT
      | Some i \<Rightarrow>
          if flags AND O_CREAT \<noteq> 0 \<and> i_type i = S_IFDIR then fail s EISDIR
          else if \<not> permits s i 4 then fail s EACCES
          else open_file s l flags)"

definition sys_openat :: "os_state \<Rightarrow> int \<Rightarrow> cstring \<Rightarrow> oflag \<Rightarrow> mode_t \<Rightarrow> int \<times> os_state" where
  "sys_openat s dfd path flags mode =
     (case path_check path of
        Inl e \<Rightarrow> fail s e
      | Inr p \<Rightarrow>
          if nofile s \<le> fd_alloc (fdtab s) then fail s EMFILE
          else
            (case open_fault s of
               Some e \<Rightarrow> fail s e
             | None \<Rightarrow>
                 (case resolve_at s (flags AND O_CREAT \<noteq> 0) dfd path of
                    Inl e \<Rightarrow> fail s e
                  | Inr (Found l) \<Rightarrow>
                      if flags AND O_CREAT \<noteq> 0 \<and> flags AND O_EXCL \<noteq> 0 then fail s EEXIST
                      else open_existing s l flags
                  | Inr (Missing d n) \<Rightarrow>
                      if flags AND O_CREAT = 0 then fail s ENOENT
                      else
                        (case create_file s d n mode of
                           Inl e \<Rightarrow> fail s e
                         | Inr s1 \<Rightarrow> open_file s1 (d @ [n]) flags))))"

definition sys_open :: "os_state \<Rightarrow> cstring \<Rightarrow> oflag \<Rightarrow> mode_t \<Rightarrow> int \<times> os_state" where
  "sys_open s path flags mode = sys_openat s AT_FDCWD path flags mode"

text \<open>
  \<^verbatim>\<open>close\<close> of a descriptor that is not open fails with \<^verbatim>\<open>EBADF\<close>. A close of an
  open descriptor releases it, also when the platform reports an error for it (as Linux
  and illumos do; POSIX leaves the descriptor's state open in that case).
\<close>

definition sys_close :: "os_state \<Rightarrow> int \<Rightarrow> int \<times> os_state" where
  "sys_close s fd =
     (case fd_lookup s fd of
        None \<Rightarrow> fail s EBADF
      | Some f \<Rightarrow>
          (case close_fault s of
             None \<Rightarrow> (0, s\<lparr>fdtab := (fdtab s)[nat fd := None]\<rparr>)
           | Some e \<Rightarrow> fail (s\<lparr>fdtab := (fdtab s)[nat fd := None]\<rparr>) e))"

definition posix :: "os_state libc" where
  "posix = \<lparr>c_open = sys_open, c_openat = sys_openat, c_close = sys_close, c_errno = errno\<rparr>"

subsection \<open>The exclusive create in one piece\<close>

text \<open>
  What \<^verbatim>\<open>openat\<close> with \<^verbatim>\<open>O_CREAT | O_EXCL\<close> does before it gives out a descriptor,
  written out once for the proofs: the error it fails with, or the state with the new
  file and the location of that file (lemma \<open>sys_openat_creat_excl\<close>).
\<close>

definition creat_excl :: "os_state \<Rightarrow> int \<Rightarrow> cstring \<Rightarrow> mode_t \<Rightarrow> int + os_state \<times> location" where
  "creat_excl s dfd path mode =
     (case path_check path of
        Inl e \<Rightarrow> Inl e
      | Inr p \<Rightarrow>
          if nofile s \<le> fd_alloc (fdtab s) then Inl EMFILE
          else
            (case open_fault s of
               Some e \<Rightarrow> Inl e
             | None \<Rightarrow>
                 (case resolve_at s True dfd path of
                    Inl e \<Rightarrow> Inl e
                  | Inr (Found l) \<Rightarrow> Inl EEXIST
                  | Inr (Missing d n) \<Rightarrow>
                      (case create_file s d n mode of
                         Inl e \<Rightarrow> Inl e
                       | Inr s1 \<Rightarrow> Inr (s1, d @ [n])))))"

text \<open>The descriptor table after the lowest free descriptor was taken and released.\<close>

definition release_tab :: "ofd option list \<Rightarrow> ofd option list" where
  "release_tab tab = (if fd_alloc tab < length tab then tab else tab @ [None])"

subsection \<open>What a path names\<close>

text \<open>
  \<open>resolve\<close> is what a path names for the calling process when it resolves the path
  from its working directory, as \<^verbatim>\<open>mknod\<close>'s caller does. Whether a path is valid and
  which entry it names does not depend on who asks: both are read off the resolution by
  the superuser, whom no directory refuses. A path is valid when it resolves, to an entry
  or to a free name in an existing directory; \<open>entry_at\<close> is the entry it names, if any.
\<close>

definition resolve :: "os_state \<Rightarrow> cstring \<Rightarrow> int + target" where
  "resolve s path = resolve_at s False AT_FDCWD path"

definition as_superuser :: "os_state \<Rightarrow> os_state" where
  "as_superuser s = s\<lparr>euid := 0\<rparr>"


definition entry_at :: "os_state \<Rightarrow> cstring \<Rightarrow> inode option" where
  "entry_at s path =
     (case resolve (as_superuser s) path of
        Inl e \<Rightarrow> None
      | Inr (Found l) \<Rightarrow> fs s l
      | Inr (Missing d n) \<Rightarrow> None)"


text \<open>
  The process may search every directory on the way of the path: it resolves the path
  as the superuser does.
\<close>

definition may_search :: "os_state \<Rightarrow> cstring \<Rightarrow> bool" where
  "may_search s path = (resolve s path = resolve (as_superuser s) path)"


text \<open>The last component of the path is a name (not \<open>.\<close> or \<open>..\<close>) followed by a slash.\<close>

definition slash_after_name :: "cstring \<Rightarrow> bool" where
  "slash_after_name path =
     (case path of
        None \<Rightarrow> False
      | Some p \<Rightarrow>
          trailing_slash p \<and> components p \<noteq> [] \<and>
          last (components p) \<noteq> ''.'' \<and> last (components p) \<noteq> ''..'')"

subsection \<open>Threads\<close>

text \<open>
  Threads of one process that each call \<^verbatim>\<open>mknod\<close> on the same path share the state
  but for \<^verbatim>\<open>errno\<close>, which every thread has of its own. A library call is one step: the
  platform runs the calls of the threads one at a time, in the order of a schedule (a
  list of thread numbers, a number that is no thread's doing nothing).
\<close>

record thread =
  t_pc :: pc
  t_errno :: int
  t_mode :: mode_t











subsection \<open>Sample states\<close>

text \<open>
  A root directory with the world-writable directory \<^verbatim>\<open>/tmp\<close> holding the two-byte
  file \<^verbatim>\<open>/tmp/f\<close>, the directory \<^verbatim>\<open>/ro\<close> that only the superuser may write, and the
  directory \<^verbatim>\<open>/ns\<close> that only the superuser may search, holding \<^verbatim>\<open>/ns/f\<close>. The
  process acts as user 1000; its working directory is the root; descriptor 0 is open on
  \<^verbatim>\<open>/tmp\<close>, descriptor 1 is free, descriptor 2 is open on \<^verbatim>\<open>/tmp/f\<close>; the limit on
  descriptors is 8.
\<close>

definition root_dir :: "mode_t \<Rightarrow> inode" where
  "root_dir perm = \<lparr>i_type = S_IFDIR, i_perm = perm, i_uid = 0, i_gid = 0, i_data = []\<rparr>"

definition demo_fs :: "location \<rightharpoonup> inode" where
  "demo_fs =
     [[] \<mapsto> root_dir 0x1ED,
      [''tmp''] \<mapsto> root_dir 0x3FF,
      [''tmp'', ''f''] \<mapsto>
        \<lparr>i_type = S_IFREG, i_perm = 0x1A4, i_uid = 1000, i_gid = 1000, i_data = [104, 105]\<rparr>,
      [''ro''] \<mapsto> root_dir 0x1ED,
      [''ns''] \<mapsto> root_dir 0x1C0,
      [''ns'', ''f''] \<mapsto>
        \<lparr>i_type = S_IFREG, i_perm = 0x1A4, i_uid = 0, i_gid = 0, i_data = []\<rparr>]"

definition demo :: os_state where
  "demo =
     \<lparr>fs = demo_fs, read_only = False, cwd = [], umask = 0x12,
      euid = 1000, egid = 1000, groups = [],
      fdtab = [Some \<lparr>f_loc = [''tmp''], f_flags = 0\<rparr>, None,
               Some \<lparr>f_loc = [''tmp'', ''f''], f_flags = 0\<rparr>],
      nofile = 8, errno = 0, open_fault = None, create_fault = None, close_fault = None\<rparr>"

text \<open>
  The same state on a platform that lets every close fail with \<^verbatim>\<open>EIO\<close>; with a file
  system that has no room for a new file; with the limit on descriptors at 3, so that
  one descriptor is free; and with the limit at 1, so that none is.
\<close>

definition demo_eio :: os_state where
  "demo_eio = demo\<lparr>close_fault := Some EIO\<rparr>"

definition demo_nospc :: os_state where
  "demo_nospc = demo\<lparr>create_fault := Some ENOSPC\<rparr>"

definition demo_one_fd :: os_state where
  "demo_one_fd = demo\<lparr>nofile := 3\<rparr>"

definition demo_no_fd :: os_state where
  "demo_no_fd = demo\<lparr>nofile := 1\<rparr>"

text \<open>Two threads about to call \<^verbatim>\<open>mknod\<close>, with modes \<open>0644\<close> and \<open>0600\<close>.\<close>

definition two_threads :: "thread list" where
  "two_threads =
     [\<lparr>t_pc = Ready, t_errno = 0, t_mode = 0x1A4\<rparr>, \<lparr>t_pc = Ready, t_errno = 0, t_mode = 0x180\<rparr>]"

section \<open>Properties of the shim over any library\<close>

text \<open>The definitions that evaluate a call on the sample states.\<close>

lemmas demo_defs = demo_def demo_eio_def demo_nospc_def demo_one_fd_def demo_no_fd_def demo_fs_def
  root_dir_def two_threads_def

lemmas path_defs = resolve_def resolve_at_def path_check_def start_dir_def absolute_def
  lookup_path_def components_def dir_check_def search_check_def permits_def in_group_def step_def
  trailing_slash_def AT_FDCWD_def fd_lookup_def NAME_MAX_def PATH_MAX_def as_superuser_def

lemmas call_defs = posix_def sys_open_def sys_openat_def sys_close_def open_file_def
  open_existing_def create_file_def fail_def fd_install_def new_file_def strip_sgid_def
  S_ISGID_def S_IXGRP_def O_CREAT_def O_EXCL_def

lemma mknod_cases:
  "mknod L s path mode dev =
     (if fst (c_open L s path (O_CREAT OR O_EXCL) mode) = -1
      then (-1, snd (c_open L s path (O_CREAT OR O_EXCL) mode))
      else (0, snd (c_close L (snd (c_open L s path (O_CREAT OR O_EXCL) mode))
                             (fst (c_open L s path (O_CREAT OR O_EXCL) mode)))))"
  by (simp add: mknod_def split: prod.splits)

lemma mknodat_cases:
  "mknodat L s fd path mode dev =
     (if fst (c_openat L s fd path (O_CREAT OR O_EXCL) mode) = -1
      then (-1, snd (c_openat L s fd path (O_CREAT OR O_EXCL) mode))
      else (0, snd (c_close L (snd (c_openat L s fd path (O_CREAT OR O_EXCL) mode))
                             (fst (c_openat L s fd path (O_CREAT OR O_EXCL) mode)))))"
  by (simp add: mknodat_def split: prod.splits)

text \<open>
  Claim C4. Whenever the open fails (returns \<open>-1\<close>), \<open>mknod\<close> and \<open>mknodat\<close> return
  \<open>-1\<close> and leave the state exactly as the failed open left it, \<^verbatim>\<open>errno\<close> included:
  the caller is told the failure with the error number of the open, nothing is retried
  and nothing is wrapped. This holds for every implementation of the library.
\<close>

theorem open_failure_propagated:
  "(c_open L s path (O_CREAT OR O_EXCL) mode = (-1, s1) \<longrightarrow>
      mknod L s path mode dev = (-1, s1) \<and>
      result_of L (mknod L s path mode dev) = Failure (c_errno L s1))
   \<and> (c_openat L s fd path' (O_CREAT OR O_EXCL) mode' = (-1, s2) \<longrightarrow>
      mknodat L s fd path' mode' dev' = (-1, s2) \<and>
      result_of L (mknodat L s fd path' mode' dev') = Failure (c_errno L s2))"
  by (simp add: mknod_cases mknodat_cases result_of_def)

theorem open_failure_propagated_witness:
  "c_open posix demo (Some ''/tmp/f'') (O_CREAT OR O_EXCL) 0x1A4 = (-1, demo\<lparr>errno := EEXIST\<rparr>)
   \<and> mknod posix demo (Some ''/tmp/f'') 0x1A4 0 = (-1, demo\<lparr>errno := EEXIST\<rparr>)
   \<and> result_of posix (mknod posix demo (Some ''/tmp/f'') 0x1A4 0)
        = Failure (c_errno posix (demo\<lparr>errno := EEXIST\<rparr>))
   \<and> c_errno posix (demo\<lparr>errno := EEXIST\<rparr>) = EEXIST
   \<and> c_openat posix demo 1 (Some ''g'') (O_CREAT OR O_EXCL) 0x1A4 = (-1, demo\<lparr>errno := EBADF\<rparr>)
   \<and> mknodat posix demo 1 (Some ''g'') 0x1A4 0 = (-1, demo\<lparr>errno := EBADF\<rparr>)
   \<and> result_of posix (mknodat posix demo 1 (Some ''g'') 0x1A4 0)
        = Failure (c_errno posix (demo\<lparr>errno := EBADF\<rparr>))
   \<and> c_errno posix (demo\<lparr>errno := EBADF\<rparr>) = EBADF"
proof -
  have o: "c_open posix demo (Some ''/tmp/f'') (O_CREAT OR O_EXCL) 0x1A4
      = (-1, demo\<lparr>errno := EEXIST\<rparr>)"
    by (simp add: demo_defs path_defs call_defs)
  have a: "c_openat posix demo 1 (Some ''g'') (O_CREAT OR O_EXCL) 0x1A4
      = (-1, demo\<lparr>errno := EBADF\<rparr>)"
    by (simp add: demo_defs path_defs call_defs)
  have e: "c_errno posix (demo\<lparr>errno := EEXIST\<rparr>) = EEXIST"
    "c_errno posix (demo\<lparr>errno := EBADF\<rparr>) = EBADF"
    by (simp_all add: posix_def)
  from o a e
    open_failure_propagated [where L = posix and s = demo and path = "Some ''/tmp/f''"
      and mode = "0x1A4" and ?s1.0 = "demo\<lparr>errno := EEXIST\<rparr>" and dev = 0 and fd = 1
      and path' = "Some ''g''" and mode' = "0x1A4" and ?s2.0 = "demo\<lparr>errno := EBADF\<rparr>"
      and dev' = 0]
  show ?thesis by blast
qed

text \<open>
  Claim C5. For every version, path (the null pointer and the empty string included),
  mode and dev, and in every state, \<open>_xmknod\<close> returns \<open>0\<close> and leaves the state as
  it was.
\<close>

theorem underscore_xmknod_noop:
  "fst (underscore_xmknod s version path mode dev) = 0 \<and>
   snd (underscore_xmknod s version path mode dev) = s"
  by (simp add: underscore_xmknod_def)

text \<open>
  Claim C6. In every state, \<open>_mknod\<close> returns \<open>0\<close> and leaves the state as it was.
\<close>

theorem underscore_mknod_noop:
  "fst (underscore_mknod s) = 0 \<and> snd (underscore_mknod s) = s"
  by (simp add: underscore_mknod_def)

text \<open>
  Claim C8. Whenever the open succeeds (returns anything but \<open>-1\<close>), \<open>mknod\<close> and
  \<open>mknodat\<close> return \<open>0\<close> and the caller is told a success, whatever the close returns:
  the theorem holds for every implementation of \<^verbatim>\<open>close\<close>, the failing ones included.
  A success carries no error detail; the cell \<^verbatim>\<open>errno\<close> itself is not restored after the
  close and has no meaning after a return of \<open>0\<close>.
\<close>

theorem close_result_discarded:
  "(fst (c_open L s path (O_CREAT OR O_EXCL) mode) \<noteq> -1 \<longrightarrow>
      fst (mknod L s path mode dev) = 0 \<and> result_of L (mknod L s path mode dev) = Success)
   \<and> (fst (c_openat L s fd path' (O_CREAT OR O_EXCL) mode') \<noteq> -1 \<longrightarrow>
      fst (mknodat L s fd path' mode' dev') = 0 \<and>
      result_of L (mknodat L s fd path' mode' dev') = Success)"
  by (simp add: mknod_cases mknodat_cases result_of_def)

theorem close_result_discarded_witness:
  "fst (c_open posix demo_eio (Some ''/tmp/x'') (O_CREAT OR O_EXCL) 0x1A4) = 1
   \<and> fst (c_close posix (snd (c_open posix demo_eio (Some ''/tmp/x'') (O_CREAT OR O_EXCL) 0x1A4)) 1) = -1
   \<and> fst (mknod posix demo_eio (Some ''/tmp/x'') 0x1A4 0) = 0
   \<and> result_of posix (mknod posix demo_eio (Some ''/tmp/x'') 0x1A4 0) = Success
   \<and> fst (c_openat posix demo_eio 0 (Some ''x'') (O_CREAT OR O_EXCL) 0x1A4) = 1
   \<and> fst (c_close posix (snd (c_openat posix demo_eio 0 (Some ''x'') (O_CREAT OR O_EXCL) 0x1A4)) 1) = -1
   \<and> fst (mknodat posix demo_eio 0 (Some ''x'') 0x1A4 0) = 0
   \<and> result_of posix (mknodat posix demo_eio 0 (Some ''x'') 0x1A4 0) = Success"
proof -
  have o: "fst (c_open posix demo_eio (Some ''/tmp/x'') (O_CREAT OR O_EXCL) 0x1A4) = 1"
    by (simp add: demo_defs path_defs call_defs)
  have c: "fst (c_close posix (snd (c_open posix demo_eio (Some ''/tmp/x'') (O_CREAT OR O_EXCL) 0x1A4)) 1) = -1"
    by (simp add: demo_defs path_defs call_defs)
  have a: "fst (c_openat posix demo_eio 0 (Some ''x'') (O_CREAT OR O_EXCL) 0x1A4) = 1"
    by (simp add: demo_defs path_defs call_defs)
  have d: "fst (c_close posix (snd (c_openat posix demo_eio 0 (Some ''x'') (O_CREAT OR O_EXCL) 0x1A4)) 1) = -1"
    by (simp add: demo_defs path_defs call_defs)
  from o c a d
    close_result_discarded [where L = posix and s = demo_eio and path = "Some ''/tmp/x''"
      and mode = "0x1A4" and dev = 0 and fd = 0 and path' = "Some ''x''" and mode' = "0x1A4"
      and dev' = 0]
  show ?thesis by simp
qed

text \<open>
  For every implementation of the library, \<open>mknod\<close> and \<open>mknodat\<close> return \<open>0\<close> or
  \<open>-1\<close> and nothing else.
\<close>

theorem mknod_returns_zero_or_minus_one:
  "(fst (mknod L s path mode dev) = 0 \<or> fst (mknod L s path mode dev) = -1)
   \<and> (fst (mknodat L s fd path mode dev) = 0 \<or> fst (mknodat L s fd path mode dev) = -1)"
  by (simp add: mknod_cases mknodat_cases)

text \<open>
  The program of steps is \<open>mknod\<close>: for every implementation of the library, a
  thread that makes its two steps with no other thread in between returns what
  \<open>mknod\<close> returns and leaves the state \<open>mknod\<close> leaves.
\<close>

theorem thread_alone:
  "(case thread_step L path mode Ready s of
      (pc1, s1) \<Rightarrow> thread_step L path mode pc1 s1) =
   (Returned (fst (mknod L s path mode dev)), snd (mknod L s path mode dev))"
  by (simp add: mknod_cases split: prod.splits)

section \<open>Properties of the platform\<close>

subsection \<open>The descriptor table\<close>

lemma fd_alloc_le: "fd_alloc tab \<le> length tab"
  by (induction tab rule: fd_alloc.induct) simp_all

lemma fd_alloc_free: "fd_alloc tab < length tab \<Longrightarrow> tab ! fd_alloc tab = None"
  by (induction tab rule: fd_alloc.induct) simp_all

lemma fd_alloc_least: "c < length tab \<Longrightarrow> tab ! c = None \<Longrightarrow> fd_alloc tab \<le> c"
proof (induction tab arbitrary: c rule: fd_alloc.induct)
  case 1
  then show ?case by simp
next
  case (2 tab)
  then show ?case by simp
next
  case (3 f tab)
  then show ?case by (cases c) simp_all
qed

lemma fd_install_nth: "(fd_install tab (fd_alloc tab) f) ! fd_alloc tab = Some f"
  using fd_alloc_le [of tab] by (auto simp: fd_install_def nth_append)

lemma fd_install_length: "fd_alloc tab < length (fd_install tab (fd_alloc tab) f)"
  using fd_alloc_le [of tab] by (auto simp: fd_install_def)

lemma fd_release: "(fd_install tab (fd_alloc tab) f)[fd_alloc tab := None] = release_tab tab"
  using fd_alloc_le [of tab] fd_alloc_free [of tab]
  by (auto simp: fd_install_def release_tab_def list_update_append list_update_same_conv)

lemma fd_lookup_fdtab:
  assumes "fdtab s' = fdtab s"
  shows "fd_lookup s' fd = fd_lookup s fd"
  using assms by (simp add: fd_lookup_def)

text \<open>Taking the lowest free descriptor and releasing it again leaves every descriptor as it was.\<close>

lemma fd_lookup_released: "fd_lookup (s\<lparr>fdtab := release_tab (fdtab s)\<rparr>) fd = fd_lookup s fd"
  by (auto simp: fd_lookup_def release_tab_def nth_append)

lemma fd_free_alloc:
  assumes "fd_free s c"
  shows "fd_alloc (fdtab s) \<le> c" and "fd_alloc (fdtab s) < nofile s"
proof -
  show le: "fd_alloc (fdtab s) \<le> c"
  proof (cases "c < length (fdtab s)")
    case True
    with assms have "fdtab s ! c = None"
      by (simp add: fd_free_def fd_lookup_def)
    with True show ?thesis by (rule fd_alloc_least)
  next
    case False
    with fd_alloc_le [of "fdtab s"] show ?thesis by simp
  qed
  from assms have "c < nofile s" by (simp add: fd_free_def)
  with le show "fd_alloc (fdtab s) < nofile s" by simp
qed

lemma fd_alloc_unused: "fd_lookup s (int (fd_alloc (fdtab s))) = None"
  using fd_alloc_free [of "fdtab s"] by (simp add: fd_lookup_def)

lemma open_file_fd: "fst (open_file s l flags) \<noteq> -1"
  by (simp add: open_file_def)

lemma open_file_lookup:
  "fd_lookup (snd (open_file s l flags)) (fst (open_file s l flags)) \<noteq> None"
  by (simp add: open_file_def fd_lookup_def fd_install_nth fd_install_length)


lemma close_after_open:
  "sys_close (snd (open_file s l flags)) (fst (open_file s l flags)) =
     (case close_fault s of
        None \<Rightarrow> (0, s\<lparr>fdtab := release_tab (fdtab s)\<rparr>)
      | Some e \<Rightarrow> (-1, s\<lparr>fdtab := release_tab (fdtab s), errno := e\<rparr>))"
  by (simp add: sys_close_def open_file_def fd_lookup_def fd_install_nth fd_install_length fail_def
      fd_release split: option.splits)

lemma creat_excl_bits: "O_CREAT \<noteq> 0" "O_EXCL \<noteq> 0"
  by (simp_all add: O_CREAT_def O_EXCL_def)

lemma sys_openat_creat_excl:
  "sys_openat s dfd path (O_CREAT OR O_EXCL) mode =
     (case creat_excl s dfd path mode of
        Inl e \<Rightarrow> (-1, s\<lparr>errno := e\<rparr>)
      | Inr (s1, l) \<Rightarrow> open_file s1 l (O_CREAT OR O_EXCL))"
  by (auto simp: sys_openat_def creat_excl_def fail_def creat_excl_bits
      split: sum.splits target.splits option.splits)

lemma mknod_posix: "mknod posix s path mode dev = mknodat posix s AT_FDCWD path mode dev"
  by (simp add: mknod_def mknodat_def posix_def sys_open_def)

lemma mknodat_posix_result:
  "mknodat posix s fd path mode dev =
     (case creat_excl s fd path mode of
        Inl e \<Rightarrow> (-1, s\<lparr>errno := e\<rparr>)
      | Inr (s1, l) \<Rightarrow>
          (0, s1\<lparr>fdtab := release_tab (fdtab s1),
                 errno := (case close_fault s1 of None \<Rightarrow> errno s1 | Some e \<Rightarrow> e)\<rparr>))"
proof (cases "creat_excl s fd path mode")
  case (Inl e)
  then show ?thesis
    by (simp add: mknodat_cases posix_def sys_openat_creat_excl)
next
  case (Inr r)
  obtain s1 l where r: "r = (s1, l)" by (cases r)
  with Inr have o: "sys_openat s fd path (O_CREAT OR O_EXCL) mode = open_file s1 l (O_CREAT OR O_EXCL)"
    by (simp add: sys_openat_creat_excl)
  show ?thesis
    using Inr r o close_after_open [of s1 l "O_CREAT OR O_EXCL"]
      open_file_fd [of s1 l "O_CREAT OR O_EXCL"]
    by (auto simp: mknodat_cases posix_def split: option.splits)
qed

subsection \<open>What resolution depends on\<close>

lemma dir_check_fs:
  assumes "fs s' = fs s"
  shows "dir_check s' d = dir_check s d"
  using assms by (simp add: dir_check_def)

lemma permits_creds:
  assumes "euid s' = euid s" and "egid s' = egid s" and "groups s' = groups s"
  shows "permits s' i w = permits s i w"
  using assms by (simp add: permits_def in_group_def)

lemma search_check_frame:
  assumes "fs s' = fs s" and "euid s' = euid s" and "egid s' = egid s" and "groups s' = groups s"
  shows "search_check s' d = search_check s d"
  using assms(1)
  by (auto simp: search_check_def permits_creds [OF assms(2-4)] split: option.splits)

lemma walk_frame:
  assumes "fs s' = fs s" and "euid s' = euid s" and "egid s' = egid s" and "groups s' = groups s"
  shows "walk s' b ns = walk s b ns"
proof (induction ns arbitrary: b)
  case Nil
  show ?case by simp
next
  case (Cons n ns)
  show ?case
    by (cases "search_check s b") (simp_all add: search_check_frame [OF assms] Cons.IH)
qed

lemma lookup_path_frame:
  assumes "fs s' = fs s" and "euid s' = euid s" and "egid s' = egid s" and "groups s' = groups s"
  shows "lookup_path s' c b p = lookup_path s c b p"
  unfolding lookup_path_def
  by (simp only: walk_frame [OF assms] search_check_frame [OF assms] dir_check_fs [OF assms(1)]
      assms(1))

lemma start_dir_frame:
  assumes "cwd s' = cwd s" and "fdtab s' = fdtab s" and "fs s' = fs s"
  shows "start_dir s' fd p = start_dir s fd p"
  using assms(1,2)
  by (simp add: start_dir_def fd_lookup_def dir_check_fs [OF assms(3)] cong: option.case_cong)

lemma start_dir_cwd:
  assumes "cwd s' = cwd s"
  shows "start_dir s' AT_FDCWD p = start_dir s AT_FDCWD p"
  using assms by (simp add: start_dir_def)

lemma resolve_at_frame:
  assumes "cwd s' = cwd s" and "fdtab s' = fdtab s" and "fs s' = fs s"
    and "euid s' = euid s" and "egid s' = egid s" and "groups s' = groups s"
  shows "resolve_at s' c fd path = resolve_at s c fd path"
  by (simp add: resolve_at_def start_dir_frame [OF assms(1-3)]
      lookup_path_frame [OF assms(3-6)] cong: sum.case_cong)

lemma resolve_frame:
  assumes "cwd s' = cwd s" and "fs s' = fs s"
    and "euid s' = euid s" and "egid s' = egid s" and "groups s' = groups s"
  shows "resolve s' path = resolve s path"
  by (simp add: resolve_def resolve_at_def start_dir_cwd [OF assms(1)]
      lookup_path_frame [OF assms(2-5)] cong: sum.case_cong)

subsection \<open>The superuser\<close>

lemma permits_superuser: "permits (as_superuser s) i w"
  by (simp add: permits_def as_superuser_def)

lemma dir_check_superuser: "dir_check (as_superuser s) d = dir_check s d"
  by (simp add: dir_check_def as_superuser_def)

lemma search_check_superuser:
  assumes "search_check s d = None"
  shows "search_check (as_superuser s) d = None"
proof -
  have f: "fs (as_superuser s) = fs s" by (simp add: as_superuser_def)
  from assms show ?thesis
    by (auto simp: search_check_def f permits_superuser split: option.splits if_splits)
qed

text \<open>What a process resolves, the superuser resolves to the same.\<close>

lemma walk_superuser:
  assumes "walk s b ns = Inr d"
  shows "walk (as_superuser s) b ns = Inr d"
  using assms
proof (induction ns arbitrary: b)
  case Nil
  then show ?case by simp
next
  case (Cons n ns)
  from Cons.prems have c: "search_check s b = None"
    by (cases "search_check s b") simp_all
  with Cons.prems have l: "\<not> NAME_MAX < length n" and w: "walk s (step b n) ns = Inr d"
    by (simp_all split: if_splits)
  from search_check_superuser [OF c] l Cons.IH [OF w] show ?case by simp
qed

lemma lookup_walked:
  assumes "lookup_path s c b p = Inr t" and "components p \<noteq> []"
  obtains d where "walk s b (butlast (components p)) = Inr d" and "search_check s d = None"
proof -
  from assms obtain d where w: "walk s b (butlast (components p)) = Inr d"
    by (cases "walk s b (butlast (components p))") (auto simp: lookup_path_def)
  with assms have "search_check s d = None"
    by (cases "search_check s d") (auto simp: lookup_path_def)
  with w that show ?thesis by blast
qed

lemma lookup_path_superuser:
  assumes "lookup_path s c b p = Inr t"
  shows "lookup_path (as_superuser s) c b p = Inr t"
proof (cases "components p = []")
  case True
  with assms show ?thesis
    by (simp add: lookup_path_def dir_check_superuser)
next
  case False
  from lookup_walked [OF assms False] obtain d
    where w: "walk s b (butlast (components p)) = Inr d" and c: "search_check s d = None"
    by blast
  have f: "fs (as_superuser s) = fs s" by (simp add: as_superuser_def)
  have "lookup_path (as_superuser s) c b p = lookup_path s c b p"
    using False w c
    by (simp add: lookup_path_def walk_superuser [OF w] search_check_superuser [OF c]
        dir_check_superuser f)
  with assms show ?thesis by simp
qed

lemma start_dir_superuser: "start_dir (as_superuser s) fd p = start_dir s fd p"
  by (rule start_dir_frame) (simp_all add: as_superuser_def)

lemma resolve_at_superuser:
  assumes "resolve_at s c fd path = Inr t"
  shows "resolve_at (as_superuser s) c fd path = Inr t"
proof -
  from assms obtain p where p: "path_check path = Inr p"
    by (cases "path_check path") (auto simp: resolve_at_def)
  with assms obtain b where b: "start_dir s fd p = Inr b"
    by (cases "start_dir s fd p") (auto simp: resolve_at_def)
  with assms p have "lookup_path s c b p = Inr t"
    by (simp add: resolve_at_def)
  then have "lookup_path (as_superuser s) c b p = Inr t"
    by (rule lookup_path_superuser)
  with p b show ?thesis
    by (simp add: resolve_at_def start_dir_superuser)
qed

subsection \<open>Free names\<close>

lemma lookup_missing_facts:
  assumes "lookup_path s c b p = Inr (Missing d n)"
  shows "components p \<noteq> []" and "walk s b (butlast (components p)) = Inr d"
    and "search_check s d = None"
    and "last (components p) \<noteq> ''.''" and "last (components p) \<noteq> ''..''"
    and "n = last (components p)" and "fs s (d @ [n]) = None" and "\<not> trailing_slash p"
    and "\<not> NAME_MAX < length n"
proof -
  show ne: "components p \<noteq> []"
  proof
    assume "components p = []"
    with assms show False
      by (cases "dir_check s b") (simp_all add: lookup_path_def)
  qed
  from lookup_walked [OF assms ne] obtain d'
    where w: "walk s b (butlast (components p)) = Inr d'" and c: "search_check s d' = None"
    by blast
  from assms ne w c show nd: "last (components p) \<noteq> ''.''" "last (components p) \<noteq> ''..''"
    by (auto simp: lookup_path_def split: option.splits)
  from assms ne w c nd have r: "d' = d \<and> n = last (components p) \<and>
      fs s (d' @ [last (components p)]) = None \<and> \<not> trailing_slash p \<and>
      \<not> NAME_MAX < length (last (components p))"
    by (cases "fs s (d' @ [last (components p)])")
       (auto simp: lookup_path_def split: if_splits)
  from r w show "walk s b (butlast (components p)) = Inr d" by auto
  from r c show "search_check s d = None" by auto
  from r show "n = last (components p)" by auto
  from r show "fs s (d @ [n]) = None" by auto
  from r show "\<not> trailing_slash p" by auto
  from r show "\<not> NAME_MAX < length n" by auto
qed

text \<open>Whether a name is free does not depend on what the path is resolved for.\<close>

lemma lookup_missing_creating:
  assumes "lookup_path s c b p = Inr (Missing d n)"
  shows "lookup_path s c' b p = Inr (Missing d n)"
proof -
  note f = lookup_missing_facts [OF assms]
  from f show ?thesis
    by (simp add: lookup_path_def)
qed





text \<open>
  An entry that a path names is named for an open with \<^verbatim>\<open>O_CREAT\<close> too, unless the
  path ends in a name and a slash.
\<close>

lemma lookup_found_creating:
  assumes "lookup_path s False b p = Inr (Found l)"
    and "\<not> (trailing_slash p \<and> components p \<noteq> [] \<and>
            last (components p) \<noteq> ''.'' \<and> last (components p) \<noteq> ''..'')"
  shows "lookup_path s True b p = Inr (Found l)"
proof (cases "components p = []")
  case True
  with assms(1) show ?thesis by (simp add: lookup_path_def)
next
  case ne: False
  from lookup_walked [OF assms(1) ne] obtain d
    where w: "walk s b (butlast (components p)) = Inr d" and k: "search_check s d = None"
    by blast
  show ?thesis
  proof (cases "last (components p) = ''.'' \<or> last (components p) = ''..''")
    case True
    with assms(1) ne w k show ?thesis
      by (simp add: lookup_path_def)
  next
    case False
    with assms(2) ne have "\<not> trailing_slash p" by simp
    with assms(1) ne w k False show ?thesis
      by (simp add: lookup_path_def)
  qed
qed

subsection \<open>The exclusive create\<close>

lemma resolve_at_path_check:
  assumes "resolve_at s c fd path = Inr t"
  obtains p b where "path_check path = Inr p" and "start_dir s fd p = Inr b"
    and "lookup_path s c b p = Inr t"
proof -
  from assms obtain p where p: "path_check path = Inr p"
    by (cases "path_check path") (auto simp: resolve_at_def)
  with assms obtain b where b: "start_dir s fd p = Inr b"
    by (cases "start_dir s fd p") (auto simp: resolve_at_def)
  with assms p have "lookup_path s c b p = Inr t"
    by (simp add: resolve_at_def)
  with p b that show ?thesis by blast
qed

lemma resolve_at_missing_creating:
  assumes "resolve_at s c fd path = Inr (Missing d n)"
  shows "resolve_at s c' fd path = Inr (Missing d n)"
proof -
  from resolve_at_path_check [OF assms] obtain p b
    where p: "path_check path = Inr p" and b: "start_dir s fd p = Inr b"
      and l: "lookup_path s c b p = Inr (Missing d n)"
    by blast
  from lookup_missing_creating [OF l, of c'] p b show ?thesis
    by (simp add: resolve_at_def)
qed

lemma resolve_at_missing_dir:
  assumes "resolve_at s c fd path = Inr (Missing d n)"
  shows "fs s d \<noteq> None" and "fs s (d @ [n]) = None"
proof -
  from resolve_at_path_check [OF assms] obtain p b
    where l: "lookup_path s c b p = Inr (Missing d n)"
    by blast
  note f = lookup_missing_facts [OF l]
  from f(3) show "fs s d \<noteq> None"
    by (cases "fs s d") (simp_all add: search_check_def)
  from f(7) show "fs s (d @ [n]) = None" .
qed


lemma resolve_at_found_creating:
  assumes "resolve_at s False fd path = Inr (Found l)" and "\<not> slash_after_name path"
  shows "resolve_at s True fd path = Inr (Found l)"
proof -
  from resolve_at_path_check [OF assms(1)] obtain p b
    where p: "path_check path = Inr p" and b: "start_dir s fd p = Inr b"
      and l: "lookup_path s False b p = Inr (Found l)"
    by blast
  from p have "path = Some p"
    by (cases path) (auto simp: path_check_def split: if_splits)
  with assms(2) have "\<not> (trailing_slash p \<and> components p \<noteq> [] \<and>
            last (components p) \<noteq> ''.'' \<and> last (components p) \<noteq> ''..'')"
    by (simp add: slash_after_name_def)
  with l have "lookup_path s True b p = Inr (Found l)"
    by (rule lookup_found_creating)
  with p b show ?thesis
    by (simp add: resolve_at_def)
qed

text \<open>When the exclusive create goes through.\<close>

lemma creat_excl_missing:
  assumes "resolve_at s True fd path = Inr (Missing d n)" and "fs s d = Some dir"
    and "permits s dir 2" and "\<not> read_only s" and "create_fault s = None"
    and "open_fault s = None" and "fd_alloc (fdtab s) < nofile s"
  shows "creat_excl s fd path mode =
     Inr (s\<lparr>fs := (fs s)(d @ [n] \<mapsto> new_file s dir mode)\<rparr>, d @ [n])"
proof -
  from resolve_at_path_check [OF assms(1)] obtain p where "path_check path = Inr p"
    by blast
  with assms show ?thesis
    by (simp add: creat_excl_def create_file_def)
qed

lemma create_file_success:
  assumes "create_file s d n mode = Inr s1"
  obtains dir where "fs s d = Some dir" and "permits s dir 2" and "\<not> read_only s"
    and "create_fault s = None" and "s1 = s\<lparr>fs := (fs s)(d @ [n] \<mapsto> new_file s dir mode)\<rparr>"
proof -
  from assms obtain dir where d: "fs s d = Some dir"
    by (cases "fs s d") (auto simp: create_file_def)
  with assms have "permits s dir 2" "\<not> read_only s" "create_fault s = None"
    "s1 = s\<lparr>fs := (fs s)(d @ [n] \<mapsto> new_file s dir mode)\<rparr>"
    by (auto simp: create_file_def split: if_splits option.splits)
  with d that show ?thesis by blast
qed

lemma creat_excl_success:
  assumes "creat_excl s fd path mode = Inr (s1, l)"
  obtains d n dir where "resolve_at s True fd path = Inr (Missing d n)" and "l = d @ [n]"
    and "fs s d = Some dir" and "permits s dir 2" and "\<not> read_only s"
    and "create_fault s = None" and "open_fault s = None" and "fd_alloc (fdtab s) < nofile s"
    and "s1 = s\<lparr>fs := (fs s)(d @ [n] \<mapsto> new_file s dir mode)\<rparr>"
proof -
  from assms obtain p where p: "path_check path = Inr p"
    by (cases "path_check path") (auto simp: creat_excl_def)
  with assms have a: "fd_alloc (fdtab s) < nofile s"
    by (auto simp: creat_excl_def split: if_splits)
  with assms p have o: "open_fault s = None"
    by (cases "open_fault s") (auto simp: creat_excl_def)
  with assms p a obtain t where t: "resolve_at s True fd path = Inr t"
    by (cases "resolve_at s True fd path") (auto simp: creat_excl_def)
  with assms p a o obtain d n where m: "t = Missing d n"
    by (cases t) (auto simp: creat_excl_def)
  with assms p a o t have c: "create_file s d n mode = Inr s1" and l: "l = d @ [n]"
    by (auto simp: creat_excl_def split: sum.splits)
  from create_file_success [OF c] obtain dir where "fs s d = Some dir" "permits s dir 2"
    "\<not> read_only s" "create_fault s = None"
    "s1 = s\<lparr>fs := (fs s)(d @ [n] \<mapsto> new_file s dir mode)\<rparr>"
    by blast
  with t m l o a that show ?thesis by blast
qed



lemma entry_found:
  assumes "entry_at s path = Some i"
  obtains l where "resolve (as_superuser s) path = Inr (Found l)" and "fs s l = Some i"
proof -
  from assms obtain t where t: "resolve (as_superuser s) path = Inr t"
    by (cases "resolve (as_superuser s) path") (auto simp: entry_at_def)
  with assms obtain l where "t = Found l" and "fs s l = Some i"
    by (cases t) (auto simp: entry_at_def)
  with t that show ?thesis by blast
qed

text \<open>Where an entry exists, the exclusive create fails.\<close>

lemma creat_excl_entry:
  assumes "entry_at s path = Some i"
  shows "\<exists>e. creat_excl s AT_FDCWD path mode = Inl e"
proof (cases "creat_excl s AT_FDCWD path mode")
  case (Inl e)
  then show ?thesis by simp
next
  case (Inr r)
  obtain s1 l where "r = (s1, l)" by (cases r)
  with Inr have "creat_excl s AT_FDCWD path mode = Inr (s1, l)" by simp
  from creat_excl_success [OF this] obtain d n
    where "resolve_at s True AT_FDCWD path = Inr (Missing d n)"
    by blast
  then have "resolve_at s False AT_FDCWD path = Inr (Missing d n)"
    by (rule resolve_at_missing_creating)
  then have "resolve (as_superuser s) path = Inr (Missing d n)"
    unfolding resolve_def by (rule resolve_at_superuser)
  with entry_found [OF assms] show ?thesis by force
qed

subsection \<open>Descriptors across a call\<close>

lemma creat_excl_fdtab:
  assumes "creat_excl s fd path mode = Inr (s1, l)"
  shows "fdtab s1 = fdtab s"
  by (rule creat_excl_success [OF assms]) simp

lemma mknodat_posix_fds: "fd_lookup (snd (mknodat posix s fd path mode dev)) = fd_lookup s"
proof (cases "creat_excl s fd path mode")
  case (Inl e)
  then show ?thesis
    by (simp add: mknodat_posix_result fd_lookup_def fun_eq_iff)
next
  case (Inr r)
  obtain s1 l where r: "r = (s1, l)" by (cases r)
  with Inr have c: "creat_excl s fd path mode = Inr (s1, l)" by simp
  have t: "fdtab s1 = fdtab s"
    by (rule creat_excl_fdtab [OF c])
  have "fdtab (snd (mknodat posix s fd path mode dev)) = fdtab (s\<lparr>fdtab := release_tab (fdtab s)\<rparr>)"
    by (simp add: mknodat_posix_result c t)
  then have "fd_lookup (snd (mknodat posix s fd path mode dev)) x
      = fd_lookup (s\<lparr>fdtab := release_tab (fdtab s)\<rparr>) x" for x
    by (rule fd_lookup_fdtab)
  then have "fd_lookup (snd (mknodat posix s fd path mode dev)) x = fd_lookup s x" for x
    by (simp only: fd_lookup_released)
  then show ?thesis by (simp add: fun_eq_iff)
qed

lemma sys_openat_handle:
  assumes "fst (sys_openat s fd path (O_CREAT OR O_EXCL) mode) \<noteq> -1"
  shows "fd_lookup s (fst (sys_openat s fd path (O_CREAT OR O_EXCL) mode)) = None"
    and "fd_lookup (snd (sys_openat s fd path (O_CREAT OR O_EXCL) mode))
           (fst (sys_openat s fd path (O_CREAT OR O_EXCL) mode)) \<noteq> None"
proof -
  from assms obtain r where "creat_excl s fd path mode = Inr r"
    by (cases "creat_excl s fd path mode") (auto simp: sys_openat_creat_excl)
  moreover obtain s1 l where "r = (s1, l)" by (cases r)
  ultimately have c: "creat_excl s fd path mode = Inr (s1, l)" by simp
  then have o: "sys_openat s fd path (O_CREAT OR O_EXCL) mode = open_file s1 l (O_CREAT OR O_EXCL)"
    by (simp add: sys_openat_creat_excl)
  have t: "fdtab s1 = fdtab s"
    by (rule creat_excl_fdtab [OF c])
  show "fd_lookup s (fst (sys_openat s fd path (O_CREAT OR O_EXCL) mode)) = None"
    using fd_alloc_unused [of s] by (simp add: o open_file_def t)
  show "fd_lookup (snd (sys_openat s fd path (O_CREAT OR O_EXCL) mode))
           (fst (sys_openat s fd path (O_CREAT OR O_EXCL) mode)) \<noteq> None"
    unfolding o by (rule open_file_lookup)
qed

lemma sys_openat_failed_fds:
  assumes "fst (sys_openat s fd path (O_CREAT OR O_EXCL) mode) = -1"
  shows "fd_lookup (snd (sys_openat s fd path (O_CREAT OR O_EXCL) mode)) = fd_lookup s"
proof (cases "creat_excl s fd path mode")
  case (Inl e)
  then show ?thesis by (simp add: sys_openat_creat_excl fd_lookup_def fun_eq_iff)
next
  case (Inr r)
  obtain s1 l where "r = (s1, l)" by (cases r)
  with Inr assms open_file_fd [of s1 l "O_CREAT OR O_EXCL"] show ?thesis
    by (simp add: sys_openat_creat_excl)
qed

subsection \<open>The descriptor argument of mknodat\<close>

lemma creat_excl_resolve:
  assumes "resolve_at s True fd path = resolve_at s True fd' path"
  shows "creat_excl s fd path mode = creat_excl s fd' path mode"
  unfolding creat_excl_def assms by (rule refl)

lemma mknodat_posix_resolve:
  assumes "resolve_at s True fd path = resolve_at s True fd' path"
  shows "mknodat posix s fd path mode dev = mknodat posix s fd' path mode dev"
  by (simp add: mknodat_posix_result creat_excl_resolve [OF assms])

lemma resolve_at_absolute:
  assumes "absolute p"
  shows "resolve_at s c fd (Some p) = resolve_at s c fd' (Some p)"
  using assms by (auto simp: resolve_at_def start_dir_def path_check_def split: sum.splits)

lemma resolve_at_dirfd:
  assumes "\<not> absolute p" and "fd_lookup s fd = Some f" and "dir_check s (f_loc f) = None"
  shows "resolve_at s c fd (Some p) =
     (case path_check (Some p) of Inl e \<Rightarrow> Inl e | Inr p' \<Rightarrow> lookup_path s c (f_loc f) p)"
proof -
  from assms(2) have "fd \<noteq> AT_FDCWD"
    by (auto simp: fd_lookup_def AT_FDCWD_def split: if_splits)
  with assms show ?thesis
    by (auto simp: resolve_at_def start_dir_def path_check_def split: sum.splits)
qed

lemma resolve_at_cwd:
  assumes "\<not> absolute p"
  shows "resolve_at (s\<lparr>cwd := b\<rparr>) c AT_FDCWD (Some p) =
     (case path_check (Some p) of Inl e \<Rightarrow> Inl e | Inr p' \<Rightarrow> lookup_path s c b p)"
proof -
  have "lookup_path (s\<lparr>cwd := b\<rparr>) c b p = lookup_path s c b p"
    by (rule lookup_path_frame) simp_all
  with assms show ?thesis
    by (auto simp: resolve_at_def start_dir_def path_check_def split: sum.splits)
qed

lemma create_file_cwd:
  "create_file (s\<lparr>cwd := b\<rparr>) d n mode =
     (case create_file s d n mode of Inl e \<Rightarrow> Inl e | Inr s1 \<Rightarrow> Inr (s1\<lparr>cwd := b\<rparr>))"
  by (simp add: create_file_def new_file_def strip_sgid_def permits_def in_group_def
      split: option.splits)

lemma creat_excl_cwd:
  assumes "\<not> absolute q" and "fd_lookup s fd = Some f" and "dir_check s (f_loc f) = None"
  shows "creat_excl (s\<lparr>cwd := f_loc f\<rparr>) AT_FDCWD (Some q) mode =
     (case creat_excl s fd (Some q) mode of
        Inl e \<Rightarrow> Inl e
      | Inr (s1, l) \<Rightarrow> Inr (s1\<lparr>cwd := f_loc f\<rparr>, l))"
  unfolding creat_excl_def resolve_at_dirfd [OF assms] resolve_at_cwd [OF assms(1)] create_file_cwd
  by (simp split: sum.splits option.splits target.splits)

lemma mknodat_as_mknod:
  assumes "\<not> absolute q" and "fd_lookup s fd = Some f" and "dir_check s (f_loc f) = None"
  shows "mknodat posix s fd (Some q) mode dev =
     (case mknod posix (s\<lparr>cwd := f_loc f\<rparr>) (Some q) mode dev of
        (r, s') \<Rightarrow> (r, s'\<lparr>cwd := cwd s\<rparr>))"
proof (cases "creat_excl s fd (Some q) mode")
  case (Inl e)
  then show ?thesis
    by (simp add: mknod_posix mknodat_posix_result creat_excl_cwd [OF assms])
next
  case (Inr r)
  obtain s1 l where r: "r = (s1, l)" by (cases r)
  with Inr have c: "creat_excl s fd (Some q) mode = Inr (s1, l)" by simp
  have e: "cwd s1 = cwd s"
    by (rule creat_excl_success [OF c]) simp
  show ?thesis
    by (simp add: mknod_posix mknodat_posix_result creat_excl_cwd [OF assms] c e [symmetric]
        split: option.splits)
qed

lemma lookup_missing_nonempty:
  assumes "lookup_path s c b p = Inr (Missing d n)"
  shows "p \<noteq> []"
proof
  assume "p = []"
  then have "components p = []" by (simp add: components_def)
  with lookup_missing_facts(1) [OF assms] show False by simp
qed

subsection \<open>The mode argument\<close>

lemma new_file_low_bits:
  assumes "mode AND 0xFFF = mode' AND 0xFFF"
  shows "new_file s dir mode = new_file s dir mode'"
  using assms by (simp add: new_file_def)

lemma creat_excl_low_bits:
  assumes "mode AND 0xFFF = mode' AND 0xFFF"
  shows "creat_excl s fd path mode = creat_excl s fd path mode'"
  unfolding creat_excl_def create_file_def new_file_low_bits [OF assms] by (rule refl)

lemma mknodat_new_entries:
  assumes "fs s l = None"
  shows "case fs (snd (mknodat posix s fd path mode dev)) l of
           None \<Rightarrow> True | Some i \<Rightarrow> i_type i = S_IFREG"
proof (cases "creat_excl s fd path mode")
  case (Inl e)
  with assms show ?thesis by (simp add: mknodat_posix_result)
next
  case (Inr r)
  obtain s1 k where "r = (s1, k)" by (cases r)
  with Inr have c: "creat_excl s fd path mode = Inr (s1, k)" by simp
  from creat_excl_success [OF c] obtain d n dir
    where "s1 = s\<lparr>fs := (fs s)(d @ [n] \<mapsto> new_file s dir mode)\<rparr>"
    by metis
  with assms show ?thesis
    by (simp add: mknodat_posix_result c new_file_def)
qed

section \<open>Properties of the shim on the platform\<close>




text \<open>
  Claim C2, with the provisions it needs. For every path that names an entry, \<open>mknod\<close>
  returns \<open>-1\<close> and changes nothing but \<^verbatim>\<open>errno\<close>: the file system is the same, so
  the entry (type, size, contents) is as before and no entry is created. The error is
  \<^verbatim>\<open>EEXIST\<close> provided that the open gets as far as finding the entry: the process may
  search the directories on the way, the path does not end in a slash after a name, a
  descriptor is free below the limit, and the open is not refused for a reason of the
  platform's.
\<close>

theorem mknod_existing_entry:
  assumes "entry_at s path = Some i"
  shows "fst (mknod posix s path mode dev) = -1
       \<and> snd (mknod posix s path mode dev) = s\<lparr>errno := errno (snd (mknod posix s path mode dev))\<rparr>
       \<and> fs (snd (mknod posix s path mode dev)) = fs s
       \<and> entry_at (snd (mknod posix s path mode dev)) path = Some i
       \<and> (may_search s path \<and> \<not> slash_after_name path \<and> fd_free s a \<and> open_fault s = None \<longrightarrow>
            mknod posix s path mode dev = (-1, s\<lparr>errno := EEXIST\<rparr>) \<and>
            result_of posix (mknod posix s path mode dev) = Failure EEXIST)"
proof -
  from creat_excl_entry [OF assms] obtain e where e: "creat_excl s AT_FDCWD path mode = Inl e"
    by blast
  then have m: "mknod posix s path mode dev = (-1, s\<lparr>errno := e\<rparr>)"
    by (simp add: mknod_posix mknodat_posix_result)
  have "resolve (as_superuser (s\<lparr>errno := e\<rparr>)) path = resolve (as_superuser s) path"
    by (rule resolve_frame) (simp_all add: as_superuser_def)
  then have en: "entry_at (s\<lparr>errno := e\<rparr>) path = entry_at s path"
    by (simp add: entry_at_def split: sum.splits target.splits)
  have "e = EEXIST"
    if h: "may_search s path \<and> \<not> slash_after_name path \<and> fd_free s a \<and> open_fault s = None"
  proof -
    from entry_found [OF assms] obtain l where "resolve (as_superuser s) path = Inr (Found l)"
      by blast
    with h have "resolve_at s False AT_FDCWD path = Inr (Found l)"
      by (simp add: may_search_def resolve_def)
    with h have r: "resolve_at s True AT_FDCWD path = Inr (Found l)"
      by (simp add: resolve_at_found_creating)
    from resolve_at_path_check [OF r] obtain p where p: "path_check path = Inr p"
      by blast
    from h have "fd_free s a" by simp
    then have "fd_alloc (fdtab s) < nofile s"
      by (rule fd_free_alloc(2))
    with h p r have "creat_excl s AT_FDCWD path mode = Inl EEXIST"
      by (simp add: creat_excl_def)
    with e show ?thesis by simp
  qed
  with m en assms show ?thesis
    by (auto simp: result_of_def posix_def)
qed

theorem mknod_existing_entry_witness:
  "entry_at demo (Some ''/tmp/f'')
     = Some \<lparr>i_type = S_IFREG, i_perm = 0x1A4, i_uid = 1000, i_gid = 1000, i_data = [104, 105]\<rparr>
   \<and> may_search demo (Some ''/tmp/f'') \<and> \<not> slash_after_name (Some ''/tmp/f'')
   \<and> fd_free demo 1 \<and> open_fault demo = None
   \<and> fst (mknod posix demo (Some ''/tmp/f'') 0x21A4 0x103) = -1
   \<and> mknod posix demo (Some ''/tmp/f'') 0x21A4 0x103 = (-1, demo\<lparr>errno := EEXIST\<rparr>)
   \<and> result_of posix (mknod posix demo (Some ''/tmp/f'') 0x21A4 0x103) = Failure EEXIST
   \<and> fs (snd (mknod posix demo (Some ''/tmp/f'') 0x21A4 0x103)) = fs demo
   \<and> entry_at (snd (mknod posix demo (Some ''/tmp/f'') 0x21A4 0x103)) (Some ''/tmp/f'')
       = Some \<lparr>i_type = S_IFREG, i_perm = 0x1A4, i_uid = 1000, i_gid = 1000, i_data = [104, 105]\<rparr>"
proof -
  have e: "entry_at demo (Some ''/tmp/f'')
      = Some \<lparr>i_type = S_IFREG, i_perm = 0x1A4, i_uid = 1000, i_gid = 1000, i_data = [104, 105]\<rparr>"
    by (simp add: entry_at_def demo_defs path_defs)
  have m: "may_search demo (Some ''/tmp/f'')"
    by (simp add: may_search_def demo_defs path_defs)
  have n: "\<not> slash_after_name (Some ''/tmp/f'')"
    by (simp add: slash_after_name_def trailing_slash_def)
  have d: "fd_free demo 1"
    by (simp add: fd_free_def fd_lookup_def demo_defs)
  have o: "open_fault demo = None"
    by (simp add: demo_defs)
  from mknod_existing_entry [OF e, of "0x21A4" "0x103" 1] e m n d o show ?thesis
    by blast
qed

text \<open>
  Without the provisions the error is another one: \<^verbatim>\<open>EISDIR\<close> for the existing
  directory \<^verbatim>\<open>/tmp/\<close> named with a trailing slash, \<^verbatim>\<open>EMFILE\<close> when no descriptor
  is free, \<^verbatim>\<open>EACCES\<close> for an entry in a directory the process may not search.
\<close>

theorem mknod_existing_entry_counterexample:
  "entry_at demo (Some ''/tmp/'') = Some (root_dir 0x3FF)
   \<and> fst (mknod posix demo (Some ''/tmp/'') 0x1A4 0) = -1
   \<and> errno (snd (mknod posix demo (Some ''/tmp/'') 0x1A4 0)) = EISDIR
   \<and> EISDIR \<noteq> EEXIST
   \<and> entry_at demo_no_fd (Some ''/tmp/f'')
       = Some \<lparr>i_type = S_IFREG, i_perm = 0x1A4, i_uid = 1000, i_gid = 1000, i_data = [104, 105]\<rparr>
   \<and> fst (mknod posix demo_no_fd (Some ''/tmp/f'') 0x1A4 0) = -1
   \<and> errno (snd (mknod posix demo_no_fd (Some ''/tmp/f'') 0x1A4 0)) = EMFILE
   \<and> EMFILE \<noteq> EEXIST
   \<and> entry_at demo (Some ''/ns/f'')
       = Some \<lparr>i_type = S_IFREG, i_perm = 0x1A4, i_uid = 0, i_gid = 0, i_data = []\<rparr>
   \<and> fst (mknod posix demo (Some ''/ns/f'') 0x1A4 0) = -1
   \<and> errno (snd (mknod posix demo (Some ''/ns/f'') 0x1A4 0)) = EACCES
   \<and> EACCES \<noteq> EEXIST"
proof -
  have "entry_at demo (Some ''/tmp/'') = Some (root_dir 0x3FF)"
    "entry_at demo_no_fd (Some ''/tmp/f'')
       = Some \<lparr>i_type = S_IFREG, i_perm = 0x1A4, i_uid = 1000, i_gid = 1000, i_data = [104, 105]\<rparr>"
    "entry_at demo (Some ''/ns/f'')
       = Some \<lparr>i_type = S_IFREG, i_perm = 0x1A4, i_uid = 0, i_gid = 0, i_data = []\<rparr>"
    by (simp_all add: entry_at_def demo_defs path_defs)
  moreover have "fst (mknod posix demo (Some ''/tmp/'') 0x1A4 0) = -1"
    "errno (snd (mknod posix demo (Some ''/tmp/'') 0x1A4 0)) = EISDIR"
    by (simp_all add: mknod_def demo_defs path_defs call_defs)
  moreover have "fst (mknod posix demo_no_fd (Some ''/tmp/f'') 0x1A4 0) = -1"
    "errno (snd (mknod posix demo_no_fd (Some ''/tmp/f'') 0x1A4 0)) = EMFILE"
    by (simp_all add: mknod_def demo_defs path_defs call_defs)
  moreover have "fst (mknod posix demo (Some ''/ns/f'') 0x1A4 0) = -1"
    "errno (snd (mknod posix demo (Some ''/ns/f'') 0x1A4 0)) = EACCES"
    by (simp_all add: mknod_def demo_defs path_defs call_defs)
  moreover have "EISDIR \<noteq> EEXIST" "EMFILE \<noteq> EEXIST" "EACCES \<noteq> EEXIST"
    by (simp_all add: EISDIR_def EMFILE_def EACCES_def EEXIST_def)
  ultimately show ?thesis by blast
qed

text \<open>
  Claim C9. After every call of \<open>mknod\<close> and \<open>mknodat\<close> the open descriptors are
  those of before the call. When the open succeeds, the descriptor it returns was not
  open before, is open after the open and is not open when the call returns; when the
  open fails, it has opened no descriptor. (On the platform modelled here a close
  releases the descriptor also when it reports an error.)
\<close>

theorem mknod_releases_handle:
  "fd_lookup (snd (mknod posix s path mode dev)) = fd_lookup s
   \<and> (fst (c_open posix s path (O_CREAT OR O_EXCL) mode) \<noteq> -1 \<longrightarrow>
        fd_lookup (snd (c_open posix s path (O_CREAT OR O_EXCL) mode))
          (fst (c_open posix s path (O_CREAT OR O_EXCL) mode)) \<noteq> None \<and>
        fd_lookup (snd (mknod posix s path mode dev))
          (fst (c_open posix s path (O_CREAT OR O_EXCL) mode)) = None)
   \<and> (fst (c_open posix s path (O_CREAT OR O_EXCL) mode) = -1 \<longrightarrow>
        fd_lookup (snd (c_open posix s path (O_CREAT OR O_EXCL) mode)) = fd_lookup s)
   \<and> fd_lookup (snd (mknodat posix s fd path' mode' dev')) = fd_lookup s
   \<and> (fst (c_openat posix s fd path' (O_CREAT OR O_EXCL) mode') \<noteq> -1 \<longrightarrow>
        fd_lookup (snd (c_openat posix s fd path' (O_CREAT OR O_EXCL) mode'))
          (fst (c_openat posix s fd path' (O_CREAT OR O_EXCL) mode')) \<noteq> None \<and>
        fd_lookup (snd (mknodat posix s fd path' mode' dev'))
          (fst (c_openat posix s fd path' (O_CREAT OR O_EXCL) mode')) = None)
   \<and> (fst (c_openat posix s fd path' (O_CREAT OR O_EXCL) mode') = -1 \<longrightarrow>
        fd_lookup (snd (c_openat posix s fd path' (O_CREAT OR O_EXCL) mode')) = fd_lookup s)"
proof -
  have co: "c_open posix s path (O_CREAT OR O_EXCL) mode
      = sys_openat s AT_FDCWD path (O_CREAT OR O_EXCL) mode"
    by (simp add: posix_def sys_open_def)
  have ca: "c_openat posix s fd path' (O_CREAT OR O_EXCL) mode'
      = sys_openat s fd path' (O_CREAT OR O_EXCL) mode'"
    by (simp add: posix_def)
  show ?thesis
    unfolding co ca mknod_posix
    using sys_openat_handle [of s AT_FDCWD path mode] sys_openat_failed_fds [of s AT_FDCWD path mode]
      sys_openat_handle [of s fd path' mode'] sys_openat_failed_fds [of s fd path' mode']
    by (simp add: mknodat_posix_fds)
qed

theorem mknod_releases_handle_witness:
  "fst (c_open posix demo (Some ''/tmp/x'') (O_CREAT OR O_EXCL) 0x1A4) = 1
   \<and> fd_lookup demo 1 = None
   \<and> fd_lookup (snd (c_open posix demo (Some ''/tmp/x'') (O_CREAT OR O_EXCL) 0x1A4)) 1
        = Some \<lparr>f_loc = [''tmp'', ''x''], f_flags = O_CREAT OR O_EXCL\<rparr>
   \<and> fd_lookup (snd (mknod posix demo (Some ''/tmp/x'') 0x1A4 0)) 1 = None
   \<and> fd_lookup (snd (mknod posix demo (Some ''/tmp/x'') 0x1A4 0)) = fd_lookup demo
   \<and> fst (c_openat posix demo 2 (Some ''g'') (O_CREAT OR O_EXCL) 0x1A4) = -1
   \<and> fd_lookup (snd (c_openat posix demo 2 (Some ''g'') (O_CREAT OR O_EXCL) 0x1A4)) = fd_lookup demo
   \<and> fd_lookup (snd (mknodat posix demo 2 (Some ''g'') 0x1A4 0)) = fd_lookup demo"
proof -
  have o: "fst (c_open posix demo (Some ''/tmp/x'') (O_CREAT OR O_EXCL) 0x1A4) = 1"
    by (simp add: demo_defs path_defs call_defs)
  have n: "fd_lookup demo 1 = None"
    by (simp add: fd_lookup_def demo_defs)
  have h: "fd_lookup (snd (c_open posix demo (Some ''/tmp/x'') (O_CREAT OR O_EXCL) 0x1A4)) 1
        = Some \<lparr>f_loc = [''tmp'', ''x''], f_flags = O_CREAT OR O_EXCL\<rparr>"
    by (simp add: demo_defs path_defs call_defs)
  have a: "fst (c_openat posix demo 2 (Some ''g'') (O_CREAT OR O_EXCL) 0x1A4) = -1"
    by (simp add: demo_defs path_defs call_defs)
  note t = mknod_releases_handle [where s = demo and path = "Some ''/tmp/x''" and mode = "0x1A4"
      and dev = 0 and fd = 2 and path' = "Some ''g''" and mode' = "0x1A4" and dev' = 0]
  from t o n have r: "fd_lookup (snd (mknod posix demo (Some ''/tmp/x'') 0x1A4 0)) 1 = None"
    by simp
  from t a have f: "fd_lookup (snd (c_openat posix demo 2 (Some ''g'') (O_CREAT OR O_EXCL) 0x1A4))
      = fd_lookup demo"
    by simp
  from t o n h r a f show ?thesis
    by blast
qed

text \<open>
  Claim C3. \<open>mknodat\<close> is \<open>mknod\<close> but for the directory a relative path starts
  from. For an absolute path the descriptor is ignored (it need not even be open): return
  value and final state, \<^verbatim>\<open>errno\<close> and created entry included, are those of \<open>mknod\<close>;
  so they are with \<^verbatim>\<open>AT_FDCWD\<close>. For a relative path and a descriptor open on a
  directory, \<open>mknodat\<close> does what \<open>mknod\<close> does in a process whose working directory
  is that directory. The entry is created relative to that directory: when the path
  names no entry from there and the platform lets the process create the file (as for
  \<open>mknod\<close>), the call returns \<open>0\<close> and the file is at the location the path reaches
  from that directory; and whenever the call returns \<open>0\<close>, the one entry it has added
  is at the location the path reaches from that directory.
\<close>

theorem mknodat_like_mknod:
  "(absolute p \<longrightarrow>
      mknodat posix s fd' (Some p) mode dev = mknod posix s (Some p) mode dev)
   \<and> mknodat posix s AT_FDCWD path mode dev = mknod posix s path mode dev
   \<and> (\<not> absolute q \<and> fd_lookup s fd = Some f \<and> dir_check s (f_loc f) = None \<longrightarrow>
        mknodat posix s fd (Some q) mode dev =
          (case mknod posix (s\<lparr>cwd := f_loc f\<rparr>) (Some q) mode dev of
             (r, s') \<Rightarrow> (r, s'\<lparr>cwd := cwd s\<rparr>)))
   \<and> (\<not> absolute q \<and> fd_lookup s fd = Some f \<and> dir_check s (f_loc f) = None \<and>
        length q < PATH_MAX \<and> lookup_path s True (f_loc f) q = Inr (Missing d n) \<and>
        fs s d = Some dir \<and> permits s dir 2 \<and> \<not> read_only s \<and> create_fault s = None \<and>
        open_fault s = None \<and> fd_free s a \<longrightarrow>
        fst (mknodat posix s fd (Some q) mode dev) = 0 \<and>
        fs (snd (mknodat posix s fd (Some q) mode dev)) = (fs s)(d @ [n] \<mapsto> new_file s dir mode))
   \<and> (\<not> absolute q \<and> fd_lookup s fd = Some f \<and> dir_check s (f_loc f) = None \<and>
        fst (mknodat posix s fd (Some q) mode dev) = 0 \<longrightarrow>
        (\<exists>d' n' dir'. lookup_path s True (f_loc f) q = Inr (Missing d' n') \<and>
           fs s d' = Some dir' \<and>
           fs (snd (mknodat posix s fd (Some q) mode dev))
             = (fs s)(d' @ [n'] \<mapsto> new_file s dir' mode)))"
proof (intro conjI impI)
  assume "absolute p"
  then have "resolve_at s True fd' (Some p) = resolve_at s True AT_FDCWD (Some p)"
    by (rule resolve_at_absolute)
  then show "mknodat posix s fd' (Some p) mode dev = mknod posix s (Some p) mode dev"
    unfolding mknod_posix by (rule mknodat_posix_resolve)
next
  show "mknodat posix s AT_FDCWD path mode dev = mknod posix s path mode dev"
    by (simp add: mknod_posix)
next
  assume "\<not> absolute q \<and> fd_lookup s fd = Some f \<and> dir_check s (f_loc f) = None"
  then show "mknodat posix s fd (Some q) mode dev =
          (case mknod posix (s\<lparr>cwd := f_loc f\<rparr>) (Some q) mode dev of
             (r, s') \<Rightarrow> (r, s'\<lparr>cwd := cwd s\<rparr>))"
    by (simp add: mknodat_as_mknod)
next
  assume a: "\<not> absolute q \<and> fd_lookup s fd = Some f \<and> dir_check s (f_loc f) = None \<and>
        length q < PATH_MAX \<and> lookup_path s True (f_loc f) q = Inr (Missing d n) \<and>
        fs s d = Some dir \<and> permits s dir 2 \<and> \<not> read_only s \<and> create_fault s = None \<and>
        open_fault s = None \<and> fd_free s a"
  then have l: "lookup_path s True (f_loc f) q = Inr (Missing d n)" by simp
  have "q \<noteq> []"
    by (rule lookup_missing_nonempty [OF l])
  with a have "path_check (Some q) = Inr q"
    by (simp add: path_check_def)
  with a have r: "resolve_at s True fd (Some q) = Inr (Missing d n)"
    by (simp add: resolve_at_dirfd)
  from a have "fd_free s a" by simp
  then have "fd_alloc (fdtab s) < nofile s"
    by (rule fd_free_alloc(2))
  with a r have "creat_excl s fd (Some q) mode =
     Inr (s\<lparr>fs := (fs s)(d @ [n] \<mapsto> new_file s dir mode)\<rparr>, d @ [n])"
    by (simp add: creat_excl_missing)
  then have m: "mknodat posix s fd (Some q) mode dev =
     (0, s\<lparr>fs := (fs s)(d @ [n] \<mapsto> new_file s dir mode),
           fdtab := release_tab (fdtab s),
           errno := (case close_fault s of None \<Rightarrow> errno s | Some e \<Rightarrow> e)\<rparr>)"
    by (simp add: mknodat_posix_result split: option.splits)
  show "fst (mknodat posix s fd (Some q) mode dev) = 0" by (simp add: m)
  show "fs (snd (mknodat posix s fd (Some q) mode dev)) = (fs s)(d @ [n] \<mapsto> new_file s dir mode)"
    by (simp add: m)
next
  assume a: "\<not> absolute q \<and> fd_lookup s fd = Some f \<and> dir_check s (f_loc f) = None \<and>
        fst (mknodat posix s fd (Some q) mode dev) = 0"
  then obtain r where "creat_excl s fd (Some q) mode = Inr r"
    by (cases "creat_excl s fd (Some q) mode") (auto simp: mknodat_posix_result)
  moreover obtain s1 l where "r = (s1, l)" by (cases r)
  ultimately have c: "creat_excl s fd (Some q) mode = Inr (s1, l)" by simp
  from creat_excl_success [OF c] obtain d' n' dir'
    where r: "resolve_at s True fd (Some q) = Inr (Missing d' n')"
      and d: "fs s d' = Some dir'"
      and s1: "s1 = s\<lparr>fs := (fs s)(d' @ [n'] \<mapsto> new_file s dir' mode)\<rparr>"
    by metis
  from a have "resolve_at s True fd (Some q) =
     (case path_check (Some q) of Inl e \<Rightarrow> Inl e | Inr p' \<Rightarrow> lookup_path s True (f_loc f) q)"
    by (simp add: resolve_at_dirfd)
  with r have l: "lookup_path s True (f_loc f) q = Inr (Missing d' n')"
    by (cases "path_check (Some q)") simp_all
  have "fs (snd (mknodat posix s fd (Some q) mode dev)) = (fs s)(d' @ [n'] \<mapsto> new_file s dir' mode)"
    by (simp add: mknodat_posix_result c s1)
  with l d show "\<exists>d' n' dir'. lookup_path s True (f_loc f) q = Inr (Missing d' n') \<and>
           fs s d' = Some dir' \<and>
           fs (snd (mknodat posix s fd (Some q) mode dev))
             = (fs s)(d' @ [n'] \<mapsto> new_file s dir' mode)"
    by blast
qed

theorem mknodat_like_mknod_witness:
  "absolute ''/tmp/x'' \<and> fd_lookup demo 1 = None
   \<and> mknodat posix demo 1 (Some ''/tmp/x'') 0x1A4 0 = mknod posix demo (Some ''/tmp/x'') 0x1A4 0
   \<and> fst (mknod posix demo (Some ''/tmp/x'') 0x1A4 0) = 0
   \<and> mknodat posix demo AT_FDCWD (Some ''tmp/x'') 0x1A4 0 = mknod posix demo (Some ''tmp/x'') 0x1A4 0
   \<and> \<not> absolute ''x'' \<and> fd_lookup demo 0 = Some \<lparr>f_loc = [''tmp''], f_flags = 0\<rparr>
   \<and> dir_check demo [''tmp''] = None
   \<and> length ''x'' < PATH_MAX
   \<and> lookup_path demo True [''tmp''] ''x'' = Inr (Missing [''tmp''] ''x'')
   \<and> fs demo [''tmp''] = Some (root_dir 0x3FF) \<and> permits demo (root_dir 0x3FF) 2
   \<and> \<not> read_only demo \<and> create_fault demo = None \<and> open_fault demo = None \<and> fd_free demo 1
   \<and> mknodat posix demo 0 (Some ''x'') 0x1A4 0 =
        (case mknod posix (demo\<lparr>cwd := f_loc \<lparr>f_loc = [''tmp''], f_flags = 0\<rparr>\<rparr>)
                (Some ''x'') 0x1A4 0 of
           (r, s') \<Rightarrow> (r, s'\<lparr>cwd := cwd demo\<rparr>))
   \<and> fst (mknodat posix demo 0 (Some ''x'') 0x1A4 0) = 0
   \<and> fs (snd (mknodat posix demo 0 (Some ''x'') 0x1A4 0)) =
        (fs demo)([''tmp''] @ [''x''] \<mapsto> new_file demo (root_dir 0x3FF) 0x1A4)
   \<and> (\<exists>d' n' dir'. lookup_path demo True [''tmp''] ''x'' = Inr (Missing d' n') \<and>
         fs demo d' = Some dir' \<and>
         fs (snd (mknodat posix demo 0 (Some ''x'') 0x1A4 0))
           = (fs demo)(d' @ [n'] \<mapsto> new_file demo dir' 0x1A4))"
proof -
  let ?f = "\<lparr>f_loc = [''tmp''], f_flags = 0\<rparr> :: ofd"
  have a: "absolute ''/tmp/x''" and r: "\<not> absolute ''x''"
    by (simp_all add: absolute_def)
  have n: "fd_lookup demo 1 = None" and f: "fd_lookup demo 0 = Some ?f"
    by (simp_all add: fd_lookup_def demo_defs)
  have c0: "dir_check demo [''tmp''] = None"
    by (simp add: demo_defs path_defs)
  have p: "length ''x'' < PATH_MAX"
    by (simp add: PATH_MAX_def)
  have l0: "lookup_path demo True [''tmp''] ''x'' = Inr (Missing [''tmp''] ''x'')"
    by (simp add: demo_defs path_defs)
  have d: "fs demo [''tmp''] = Some (root_dir 0x3FF)"
    by (simp add: demo_defs)
  have w: "permits demo (root_dir 0x3FF) 2"
    by (simp add: demo_defs path_defs)
  have o: "\<not> read_only demo" "create_fault demo = None" "open_fault demo = None"
    by (simp_all add: demo_defs)
  have e: "fd_free demo 1"
    by (simp add: fd_free_def fd_lookup_def demo_defs)
  have m: "fst (mknod posix demo (Some ''/tmp/x'') 0x1A4 0) = 0"
    by (simp add: mknod_def demo_defs path_defs call_defs)
  from c0 have c: "dir_check demo (f_loc ?f) = None" by simp
  from l0 have l: "lookup_path demo True (f_loc ?f) ''x'' = Inr (Missing [''tmp''] ''x'')" by simp
  note t = mknodat_like_mknod [where s = demo and p = "''/tmp/x''" and fd' = 1 and mode = "0x1A4"
      and dev = 0 and path = "Some ''tmp/x''" and q = "''x''" and fd = 0
      and f = ?f and d = "[''tmp'']" and n = "''x''" and dir = "root_dir 0x3FF" and a = 1]
  from t a have t1: "mknodat posix demo 1 (Some ''/tmp/x'') 0x1A4 0
      = mknod posix demo (Some ''/tmp/x'') 0x1A4 0"
    by blast
  from t have t2: "mknodat posix demo AT_FDCWD (Some ''tmp/x'') 0x1A4 0
      = mknod posix demo (Some ''tmp/x'') 0x1A4 0"
    by blast
  from t r f c have t3: "mknodat posix demo 0 (Some ''x'') 0x1A4 0 =
        (case mknod posix (demo\<lparr>cwd := f_loc ?f\<rparr>) (Some ''x'') 0x1A4 0 of
           (r, s') \<Rightarrow> (r, s'\<lparr>cwd := cwd demo\<rparr>))"
    by blast
  from t r f c p l d w o e have t4: "fst (mknodat posix demo 0 (Some ''x'') 0x1A4 0) = 0 \<and>
      fs (snd (mknodat posix demo 0 (Some ''x'') 0x1A4 0)) =
        (fs demo)([''tmp''] @ [''x''] \<mapsto> new_file demo (root_dir 0x3FF) 0x1A4)"
    by blast
  from t r f c t4 have "\<exists>d' n' dir'. lookup_path demo True (f_loc ?f) ''x'' = Inr (Missing d' n') \<and>
         fs demo d' = Some dir' \<and>
         fs (snd (mknodat posix demo 0 (Some ''x'') 0x1A4 0))
           = (fs demo)(d' @ [n'] \<mapsto> new_file demo dir' 0x1A4)"
    by blast
  then have t5: "\<exists>d' n' dir'. lookup_path demo True [''tmp''] ''x'' = Inr (Missing d' n') \<and>
         fs demo d' = Some dir' \<and>
         fs (snd (mknodat posix demo 0 (Some ''x'') 0x1A4 0))
           = (fs demo)(d' @ [n'] \<mapsto> new_file demo dir' 0x1A4)"
    by simp
  from a n t1 m t2 r f c0 p l0 d w o e t3 t4 t5 show ?thesis
    by blast
qed

text \<open>
  Claim C7. Two calls from the same state with the same path (and descriptor) whose
  modes agree on the twelve permission bits return the same value and the same state,
  whatever the other bits of the modes (the file type bits among them) and whatever the
  two dev arguments; and every entry that exists after a call and did not exist before
  it is a regular file.
\<close>

theorem mknod_ignores_dev_and_type:
  assumes "mode AND 0xFFF = mode' AND 0xFFF"
  shows "mknod posix s path mode dev = mknod posix s path mode' dev'
       \<and> mknodat posix s fd path mode dev = mknodat posix s fd path mode' dev'
       \<and> (\<forall>l. fs s l = None \<longrightarrow>
             (case fs (snd (mknod posix s path mode dev)) l of
                None \<Rightarrow> True
              | Some i \<Rightarrow> i_type i = S_IFREG))
       \<and> (\<forall>l. fs s l = None \<longrightarrow>
             (case fs (snd (mknodat posix s fd path mode dev)) l of
                None \<Rightarrow> True
              | Some i \<Rightarrow> i_type i = S_IFREG))"
proof -
  have eq: "mknodat posix s fd path mode dev = mknodat posix s fd path mode' dev'" for fd
    by (simp add: mknodat_posix_result creat_excl_low_bits [OF assms])
  from eq mknodat_new_entries show ?thesis
    by (simp add: mknod_posix)
qed

theorem mknod_ignores_dev_and_type_witness:
  "(0x21A4 :: mode_t) AND 0xFFF = 0x81A4 AND 0xFFF
   \<and> mknod posix demo (Some ''/tmp/x'') 0x21A4 0x103 = mknod posix demo (Some ''/tmp/x'') 0x81A4 0
   \<and> mknodat posix demo 0 (Some ''x'') 0x21A4 0x103 = mknodat posix demo 0 (Some ''x'') 0x81A4 0
   \<and> fs demo [''tmp'', ''x''] = None
   \<and> fs (snd (mknod posix demo (Some ''/tmp/x'') 0x21A4 0x103)) [''tmp'', ''x'']
        = Some \<lparr>i_type = S_IFREG, i_perm = 0x1A4, i_uid = 1000, i_gid = 1000, i_data = []\<rparr>
   \<and> fs (snd (mknodat posix demo 0 (Some ''x'') 0x21A4 0x103)) [''tmp'', ''x'']
        = Some \<lparr>i_type = S_IFREG, i_perm = 0x1A4, i_uid = 1000, i_gid = 1000, i_data = []\<rparr>"
proof -
  have h: "(0x21A4 :: mode_t) AND 0xFFF = 0x81A4 AND 0xFFF"
    by simp
  have e: "fs demo [''tmp'', ''x''] = None"
    by (simp add: demo_defs)
  have m: "fs (snd (mknod posix demo (Some ''/tmp/x'') 0x21A4 0x103)) [''tmp'', ''x'']
        = Some \<lparr>i_type = S_IFREG, i_perm = 0x1A4, i_uid = 1000, i_gid = 1000, i_data = []\<rparr>"
    by (simp add: mknod_def demo_defs path_defs call_defs)
  have a: "fs (snd (mknodat posix demo 0 (Some ''x'') 0x21A4 0x103)) [''tmp'', ''x'']
        = Some \<lparr>i_type = S_IFREG, i_perm = 0x1A4, i_uid = 1000, i_gid = 1000, i_data = []\<rparr>"
    by (simp add: mknodat_def demo_defs path_defs call_defs)
  from h e m a
    mknod_ignores_dev_and_type [OF h, where s = demo and path = "Some ''/tmp/x''"
      and dev = "0x103" and dev' = 0 and fd = 0]
    mknod_ignores_dev_and_type [OF h, where s = demo and path = "Some ''x''"
      and dev = "0x103" and dev' = 0 and fd = 0]
  show ?thesis by blast
qed

text \<open>
  On the platform, a call of \<open>mknod\<close> or \<open>mknodat\<close> that does not return \<open>0\<close>
  changes nothing but \<^verbatim>\<open>errno\<close>: the file system, the descriptor table and the rest of
  the state are as before the call, whatever the reason of the failure.
\<close>

theorem mknod_failure_changes_errno_only:
  "(fst (mknod posix s path mode dev) \<noteq> 0 \<longrightarrow>
      snd (mknod posix s path mode dev) = s\<lparr>errno := errno (snd (mknod posix s path mode dev))\<rparr>)
   \<and> (fst (mknodat posix s fd path' mode' dev') \<noteq> 0 \<longrightarrow>
      snd (mknodat posix s fd path' mode' dev')
        = s\<lparr>errno := errno (snd (mknodat posix s fd path' mode' dev'))\<rparr>)"
  by (auto simp: mknod_posix mknodat_posix_result split: sum.splits)

theorem mknod_failure_changes_errno_only_witness:
  "fst (mknod posix demo (Some ''/nodir/x'') 0x1A4 0) = -1
   \<and> errno (snd (mknod posix demo (Some ''/nodir/x'') 0x1A4 0)) = ENOENT
   \<and> snd (mknod posix demo (Some ''/nodir/x'') 0x1A4 0) = demo\<lparr>errno := ENOENT\<rparr>
   \<and> fst (mknodat posix demo 2 (Some ''x'') 0x1A4 0) = -1
   \<and> errno (snd (mknodat posix demo 2 (Some ''x'') 0x1A4 0)) = ENOTDIR
   \<and> snd (mknodat posix demo 2 (Some ''x'') 0x1A4 0) = demo\<lparr>errno := ENOTDIR\<rparr>"
proof -
  have m: "fst (mknod posix demo (Some ''/nodir/x'') 0x1A4 0) = -1"
    and e: "errno (snd (mknod posix demo (Some ''/nodir/x'') 0x1A4 0)) = ENOENT"
    by (simp_all add: mknod_def demo_defs path_defs call_defs)
  have a: "fst (mknodat posix demo 2 (Some ''x'') 0x1A4 0) = -1"
    and f: "errno (snd (mknodat posix demo 2 (Some ''x'') 0x1A4 0)) = ENOTDIR"
    by (simp_all add: mknodat_def demo_defs path_defs call_defs)
  note t = mknod_failure_changes_errno_only [where s = demo and path = "Some ''/nodir/x''"
      and mode = "0x1A4" and dev = 0 and fd = 2 and path' = "Some ''x''" and mode' = "0x1A4"
      and dev' = 0]
  from t m e have t1: "snd (mknod posix demo (Some ''/nodir/x'') 0x1A4 0) = demo\<lparr>errno := ENOENT\<rparr>"
    by simp
  from t a f have t2: "snd (mknodat posix demo 2 (Some ''x'') 0x1A4 0) = demo\<lparr>errno := ENOTDIR\<rparr>"
    by simp
  from m e t1 a f t2 show ?thesis by blast
qed

section \<open>Calls that run side by side\<close>

subsection \<open>One step of a thread\<close>













subsection \<open>One step of the schedule\<close>







subsection \<open>The first open\<close>





subsection \<open>A run\<close>




subsection \<open>Every thread returns\<close>






subsection \<open>Counting\<close>







end
